theory Spec2Isabelle
  imports Complex_Main
begin

section \<open>The data set of recorded decisions\<close>

text \<open>
  The module \<^verbatim>\<open>computer_learn.py\<close> keeps one process-wide pandas data frame, \<^verbatim>\<open>dataset\<close>,
  with the six columns \<^verbatim>\<open>self_score, opp_score, opp_stands, result_card_val, result_stand,
  score\<close>. A cell of the frame holds a number, a boolean, or the missing-value marker
  \<^verbatim>\<open>np.nan\<close>, which the recorder writes into the \<^verbatim>\<open>score\<close> column as the label that is not
  known yet. Numbers are taken as reals; the float literals \<^verbatim>\<open>.3\<close> and \<^verbatim>\<open>-.3\<close> of the source
  are written \<open>3 / 10\<close> and \<open>- (3 / 10)\<close>.
\<close>

datatype cell = NaN | Num real | Flag bool

record decision_row =
  self_score :: cell
  opp_score :: cell
  opp_stands :: cell
  result_card_val :: cell
  result_stand :: cell
  score :: cell

type_synonym data_frame = "decision_row list"

text \<open>The column names, in the order of the frame's construction (lines 25-28).\<close>

definition columns :: "string list" where
  "columns = [''self_score'', ''opp_score'', ''opp_stands'',
              ''result_card_val'', ''result_stand'', ''score'']"

text \<open>
  The module-level frame is created without rows, once, when the module is loaded. No
  function of the module assigns an empty frame to it again.
\<close>

definition dataset_init :: data_frame where
  "dataset_init = []"

text \<open>
  The exceptions that the modelled code can raise itself, and \<open>Raised\<close> for any exception of
  the code it calls (a strategy function, the game engine).
\<close>

datatype error =
  IndexError | AttributeError | KeyError | ZeroDivisionError | FileNotFoundError | Raised string

subsection \<open>The pandas operations the module uses\<close>

text \<open>
  \<^verbatim>\<open>dataset.fillna(v, inplace=True)\<close> replaces every missing value of the frame, in
  whichever column it stands, by \<open>v\<close>.
\<close>

fun fill_cell :: "real \<Rightarrow> cell \<Rightarrow> cell" where
  "fill_cell v NaN = Num v"
| "fill_cell v c = c"

definition fill_row :: "real \<Rightarrow> decision_row \<Rightarrow> decision_row" where
  "fill_row v r =
     \<lparr>self_score = fill_cell v (self_score r), opp_score = fill_cell v (opp_score r),
      opp_stands = fill_cell v (opp_stands r),
      result_card_val = fill_cell v (result_card_val r),
      result_stand = fill_cell v (result_stand r), score = fill_cell v (score r)\<rparr>"

definition fillna :: "real \<Rightarrow> data_frame \<Rightarrow> data_frame" where
  "fillna v ds = map (fill_row v) ds"

text \<open>
  A Python index into a sequence of \<open>n\<close> items: \<open>0 \<dots> n - 1\<close> from the front, \<open>-1 \<dots> -n\<close> from
  the back, anything else is out of range.
\<close>

definition py_position :: "nat \<Rightarrow> int \<Rightarrow> nat option" where
  "py_position n i =
     (if 0 \<le> i \<and> i < int n then Some (nat i)
      else if i < 0 \<and> - int n \<le> i then Some (nat (int n + i))
      else None)"

definition py_index :: "'a list \<Rightarrow> int \<Rightarrow> error + 'a" where
  "py_index xs i =
     (case py_position (length xs) i of None \<Rightarrow> Inl IndexError | Some k \<Rightarrow> Inr (xs ! k))"

text \<open>
  \<^verbatim>\<open>dataset.iloc[i, j] = v\<close> writes one cell by the positions of its row and its column;
  a position outside the frame raises \<^verbatim>\<open>IndexError\<close>.
\<close>

definition set_column :: "nat \<Rightarrow> cell \<Rightarrow> decision_row \<Rightarrow> decision_row" where
  "set_column j v r =
     (if j = 0 then r\<lparr>self_score := v\<rparr>
      else if j = 1 then r\<lparr>opp_score := v\<rparr>
      else if j = 2 then r\<lparr>opp_stands := v\<rparr>
      else if j = 3 then r\<lparr>result_card_val := v\<rparr>
      else if j = 4 then r\<lparr>result_stand := v\<rparr>
      else r\<lparr>score := v\<rparr>)"

definition iloc_set :: "data_frame \<Rightarrow> int \<Rightarrow> nat \<Rightarrow> cell \<Rightarrow> error + data_frame" where
  "iloc_set ds i j v =
     (case py_position (length ds) i of
        None \<Rightarrow> Inl IndexError
      | Some k \<Rightarrow> if j < 6 then Inr (ds[k := set_column j v (ds ! k)]) else Inl IndexError)"

section \<open>The decision recorder\<close>

text \<open>
  A strategy function maps the hand, both scores and the opponent's stand flag to the
  triple \<^verbatim>\<open>(play_card, card_index, stand)\<close>, or raises. The strategies of
  \<^verbatim>\<open>computer_strategies\<close> are not part of this module and may consult Python's random
  generator; its state when the strategy is called is the first argument \<open>'g\<close> here, so
  that two calls with equal game arguments need not decide alike.
\<close>

type_synonym decision = "bool \<times> int \<times> bool"

type_synonym 'g strategy = "'g \<Rightarrow> int list \<Rightarrow> int \<Rightarrow> int \<Rightarrow> bool \<Rightarrow> error + decision"

text \<open>The two imported strategies: \<^verbatim>\<open>blackjack_like_strategy as bls\<close>, \<^verbatim>\<open>random_strategy as rds\<close>.\<close>

record 'g computer_strategies =
  bls :: "'g strategy"
  rds :: "'g strategy"

text \<open>
  Lines 160-161: when no strategy function is passed, one is chosen by a draw:
  \<^verbatim>\<open>strategy_func = bls if random.random() < 0.9 else rds\<close>. \<open>u\<close> is the value that
  \<^verbatim>\<open>random.random()\<close> returns in this call; it is read only in that case. The generator
  returns the floats \<open>k / 2^53\<close>, and on those the comparison with the float \<^verbatim>\<open>0.9\<close> and the
  comparison with the real \<open>9 / 10\<close> agree.
\<close>

definition choose_strategy ::
  "'g computer_strategies \<Rightarrow> real \<Rightarrow> 'g strategy option \<Rightarrow> 'g strategy" where
  "choose_strategy cs u strategy_func =
     (case strategy_func of
        None \<Rightarrow> if u < 9 / 10 then bls cs else rds cs
      | Some s \<Rightarrow> s)"

text \<open>
  The values of \<^verbatim>\<open>random.random()\<close>: CPython computes \<open>(a * 2^26 + b) / 2^53\<close> from 27 and 26
  fresh bits of the generator, so the call returns one of the \<open>2^53\<close> floats \<open>k / 2^53\<close>, each
  for equally many states of the generator.
\<close>

definition draw_of :: "nat \<Rightarrow> real" where
  "draw_of k = real k / 2 ^ 53"

text \<open>
  How \<^verbatim>\<open>DataFrame.append\<close> stores a boolean of the new row. The frame is created with
  \<^verbatim>\<open>dtype=float\<close> (lines 25-28); as long as it has no rows the append keeps that type, and the
  first row holds the float 1.0 or 0.0 for the boolean. On a frame with rows the boolean is
  stored as it is.
\<close>

definition store_flag :: "data_frame \<Rightarrow> bool \<Rightarrow> cell" where
  "store_flag ds b = (if ds = [] then Num (if b then 1 else 0) else Flag b)"

text \<open>
  \<^verbatim>\<open>record_results(self_hand, self_score, opp_score, opp_stands, strategy_func=None)\<close>,
  lines 147-172. The global \<^verbatim>\<open>dataset\<close> is passed in and returned; \<open>g\<close> is the generator
  state the chosen strategy runs on. An exception of the strategy, or of
  \<^verbatim>\<open>self_hand[card_index]\<close>, leaves before \<^verbatim>\<open>dataset.append\<close> is reached.
\<close>

definition record_results ::
  "'g computer_strategies \<Rightarrow> real \<Rightarrow> 'g \<Rightarrow> int list \<Rightarrow> int \<Rightarrow> int \<Rightarrow> bool \<Rightarrow>
   'g strategy option \<Rightarrow> data_frame \<Rightarrow> (error + decision) \<times> data_frame" where
  "record_results cs u g self_hand self_score' opp_score' opp_stands' strategy_func ds =
     (case choose_strategy cs u strategy_func g self_hand self_score' opp_score' opp_stands' of
        Inl e \<Rightarrow> (Inl e, ds)
      | Inr (play_card, card_index, stand) \<Rightarrow>
          (case (if play_card then py_index self_hand card_index else Inr 0) of
             Inl e \<Rightarrow> (Inl e, ds)
           | Inr card_val \<Rightarrow>
               (Inr (play_card, card_index, stand),
                ds @ [\<lparr>self_score = Num (of_int self_score'),
                       opp_score = Num (of_int opp_score'),
                       opp_stands = store_flag ds opp_stands',
                       result_card_val = Num (of_int card_val),
                       result_stand = store_flag ds stand,
                       score = NaN\<rparr>])))"

section \<open>The self-play loop\<close>

text \<open>
  The game engine \<^verbatim>\<open>pazaak.play_a_set\<close> is not part of this module. What it does in one set
  is a parameter of the model: the sequence of calls it makes to the trainee's strategy
  function (with the arguments of each call, the random draw and the generator state of
  that call), and the way the set ends: with an exception, without a winner, or with the
  winning player, of which \<^verbatim>\<open>create_dataset\<close> reads the name.
\<close>

record 'g call =
  hand :: "int list"
  own_score :: int
  other_score :: int
  other_stands :: bool
  draw :: real
  gen :: 'g

record 'g set_play =
  calls :: "'g call list"
  outcome :: "error + string option"

text \<open>
  A set in which the trainee decides at least once. The engine's rules are not part of
  the module, so nothing in the modelled code makes a set one of these.
\<close>

definition records_a_decision :: "'g set_play \<Rightarrow> bool" where
  "records_a_decision p \<longleftrightarrow> calls p \<noteq> []"

text \<open>
  The trainee is created with \<^verbatim>\<open>functools.partial(record_results, strategy_func=strategy_func)\<close>
  (lines 49-53), so each call of the engine is a call of \<open>record_results\<close>; an exception
  in one of them ends the set.
\<close>

fun play_calls ::
  "'g computer_strategies \<Rightarrow> 'g strategy option \<Rightarrow> 'g call list \<Rightarrow> data_frame \<Rightarrow>
   (error + unit) \<times> data_frame" where
  "play_calls cs sf [] ds = (Inr (), ds)"
| "play_calls cs sf (c # cl) ds =
     (case record_results cs (draw c) (gen c) (hand c) (own_score c) (other_score c)
             (other_stands c) sf ds of
        (Inl e, ds') \<Rightarrow> (Inl e, ds')
      | (Inr d, ds') \<Rightarrow> play_calls cs sf cl ds')"

definition play_a_set ::
  "'g computer_strategies \<Rightarrow> 'g strategy option \<Rightarrow> 'g set_play \<Rightarrow> data_frame \<Rightarrow>
   (error + string option) \<times> data_frame" where
  "play_a_set cs sf p ds =
     (case play_calls cs sf (calls p) ds of
        (Inl e, ds') \<Rightarrow> (Inl e, ds')
      | (Inr _, ds') \<Rightarrow> (outcome p, ds'))"

record counters =
  sets_won :: nat
  draws :: nat
  sets_lost :: nat

text \<open>
  Lines 66-76, the three branches on the winner of the set: every missing value of the
  frame is filled with the partial reward, then the label of the frame's last row is
  overwritten with the full one, and the matching counter goes up. On an empty frame
  \<^verbatim>\<open>dataset.iloc[-1, 5] = ...\<close> raises.
\<close>

definition shape_rewards ::
  "string option \<Rightarrow> counters \<times> data_frame \<Rightarrow> (error + counters) \<times> data_frame" where
  "shape_rewards winner st =
     (case st of (cnt, ds1) \<Rightarrow>
        (case winner of
           None \<Rightarrow> (Inr (cnt\<lparr>draws := draws cnt + 1\<rparr>), fillna 0 ds1)
         | Some name \<Rightarrow>
             if name = ''MLTrainee'' then
               (case iloc_set (fillna (3 / 10) ds1) (- 1) 5 (Num 1) of
                  Inl e \<Rightarrow> (Inl e, fillna (3 / 10) ds1)
                | Inr ds2 \<Rightarrow> (Inr (cnt\<lparr>sets_won := sets_won cnt + 1\<rparr>), ds2))
             else
               (case iloc_set (fillna (- (3 / 10)) ds1) (- 1) 5 (Num (- 1)) of
                  Inl e \<Rightarrow> (Inl e, fillna (- (3 / 10)) ds1)
                | Inr ds2 \<Rightarrow> (Inr (cnt\<lparr>sets_lost := sets_lost cnt + 1\<rparr>), ds2))))"

text \<open>
  The body of the \<^verbatim>\<open>for\<close> loop of \<^verbatim>\<open>create_dataset\<close>, lines 63-77: play one set, then
  shape the rewards by its winner. \<^verbatim>\<open>pazaak.prepare_next_game()\<close> is an engine hook and
  does not touch the frame.
\<close>

definition loop_body ::
  "'g computer_strategies \<Rightarrow> 'g strategy option \<Rightarrow> 'g set_play \<Rightarrow>
   counters \<times> data_frame \<Rightarrow> (error + counters) \<times> data_frame" where
  "loop_body cs sf p st =
     (case play_a_set cs sf p (snd st) of
        (Inl e, ds1) \<Rightarrow> (Inl e, ds1)
      | (Inr winner, ds1) \<Rightarrow> shape_rewards winner (fst st, ds1))"

text \<open>The loop over the sets: the first exception ends it.\<close>

fun run_sets ::
  "'g computer_strategies \<Rightarrow> 'g strategy option \<Rightarrow> 'g set_play list \<Rightarrow>
   counters \<times> data_frame \<Rightarrow> (error + counters) \<times> data_frame" where
  "run_sets cs sf [] st = (Inr (fst st), snd st)"
| "run_sets cs sf (p # ps) st =
     (case loop_body cs sf p st of
        (Inl e, ds') \<Rightarrow> (Inl e, ds')
      | (Inr cnt', ds') \<Rightarrow> run_sets cs sf ps (cnt', ds'))"

text \<open>
  The state \<^verbatim>\<open>create_dataset\<close> works on: the module's global frame and the contents of the
  file \<^verbatim>\<open>DATASET_FILE_NAME\<close> (\<open>None\<close> while it has not been written). \<^verbatim>\<open>to_csv(..., index=False)\<close>
  writes the header line and one line per row.
\<close>

record world =
  dataset :: data_frame
  csv_file :: "(string list \<times> data_frame) option"

record stats =
  won :: nat
  drawn :: nat
  lost :: nat
  total_time :: int
  sets_per_sec :: real

text \<open>Python's \<^verbatim>\<open>int(x)\<close> on a float truncates towards zero.\<close>

definition py_int :: "real \<Rightarrow> int" where
  "py_int x = (if 0 \<le> x then \<lfloor>x\<rfloor> else \<lceil>x\<rceil>)"

text \<open>
  \<^verbatim>\<open>create_dataset(learning_sets, strategy_func)\<close>, lines 31-86. \<open>engine i\<close> is what the
  engine does in the \<open>i\<close>-th set, \<open>t_start\<close> and \<open>t_end\<close> are the two readings of the timer.
  The frame is the global one as the call finds it. The result stands for the two
  printed lines; an exception leaves the global frame as it is at that moment. The
  write of the file is taken to succeed, and the division of line 82 comes after it.
\<close>

definition create_dataset ::
  "'g computer_strategies \<Rightarrow> (nat \<Rightarrow> 'g set_play) \<Rightarrow> real \<Rightarrow> real \<Rightarrow>
   int \<Rightarrow> 'g strategy option \<Rightarrow> world \<Rightarrow> (error + stats) \<times> world" where
  "create_dataset cs engine t_start t_end learning_sets strategy_func w =
     (case run_sets cs strategy_func (map engine [0..<nat learning_sets])
             (\<lparr>sets_won = 0, draws = 0, sets_lost = 0\<rparr>, dataset w) of
        (Inl e, ds) \<Rightarrow> (Inl e, w\<lparr>dataset := ds\<rparr>)
      | (Inr cnt, ds) \<Rightarrow>
          (let w' = w\<lparr>dataset := ds, csv_file := Some (columns, ds)\<rparr>;
               total = py_int (t_end - t_start)
           in if total = 0 then (Inl ZeroDivisionError, w')
              else (Inr \<lparr>won = sets_won cnt, drawn = draws cnt, lost = sets_lost cnt,
                         total_time = total,
                         sets_per_sec = of_int learning_sets / of_int total\<rparr>, w')))"

section \<open>Feature engineering of the training step\<close>

text \<open>
  \<^verbatim>\<open>train_model\<close> works on a frame by column names. A frame is the list of its named
  columns, in order. \<^verbatim>\<open>pd.read_csv\<close> of the file that \<^verbatim>\<open>to_csv\<close> wrote gives one column
  per name of the header line.
\<close>

type_synonym frame = "(string \<times> cell list) list"

definition row_items :: "decision_row \<Rightarrow> (string \<times> cell) list" where
  "row_items r =
     [(''self_score'', self_score r), (''opp_score'', opp_score r),
      (''opp_stands'', opp_stands r), (''result_card_val'', result_card_val r),
      (''result_stand'', result_stand r), (''score'', score r)]"

definition read_csv :: "string list \<times> data_frame \<Rightarrow> frame" where
  "read_csv file =
     map (\<lambda>name. (name, map (\<lambda>r. case map_of (row_items r) name of
                                     Some c \<Rightarrow> c | None \<Rightarrow> NaN) (snd file)))
         (fst file)"

text \<open>\<^verbatim>\<open>df.name\<close>: the column of that name, \<^verbatim>\<open>AttributeError\<close> when there is none.\<close>

definition get_column :: "frame \<Rightarrow> string \<Rightarrow> error + cell list" where
  "get_column df name =
     (case map_of df name of None \<Rightarrow> Inl AttributeError | Some col \<Rightarrow> Inr col)"

text \<open>\<^verbatim>\<open>df[name] = col\<close>: replaces the column in place, or adds it as the last one.\<close>

definition assign_column :: "frame \<Rightarrow> string \<Rightarrow> cell list \<Rightarrow> frame" where
  "assign_column df name col =
     (if name \<in> set (map fst df)
      then map (\<lambda>(n, c). if n = name then (n, col) else (n, c)) df
      else df @ [(name, col)])"

text \<open>\<^verbatim>\<open>df.drop(columns=names)\<close>: \<^verbatim>\<open>KeyError\<close> when a name is not a column.\<close>

definition drop_columns :: "frame \<Rightarrow> string list \<Rightarrow> error + frame" where
  "drop_columns df names =
     (if set names \<subseteq> set (map fst df)
      then Inr (filter (\<lambda>(n, c). n \<notin> set names) df)
      else Inl KeyError)"

text \<open>
  Arithmetic of two columns is element by element. A missing value gives a missing
  value; a boolean counts as 1 or 0. The floating-point operations are taken as the
  exact ones, which they are on the integer scores and card values of the game.
\<close>

fun cell_num :: "cell \<Rightarrow> real option" where
  "cell_num NaN = None"
| "cell_num (Num x) = Some x"
| "cell_num (Flag b) = Some (if b then 1 else 0)"

definition cell_sub :: "cell \<Rightarrow> cell \<Rightarrow> cell" where
  "cell_sub a b =
     (case (cell_num a, cell_num b) of (Some x, Some y) \<Rightarrow> Num (x - y) | _ \<Rightarrow> NaN)"

definition cell_add :: "cell \<Rightarrow> cell \<Rightarrow> cell" where
  "cell_add a b =
     (case (cell_num a, cell_num b) of (Some x, Some y) \<Rightarrow> Num (x + y) | _ \<Rightarrow> NaN)"

definition series_sub :: "cell list \<Rightarrow> cell list \<Rightarrow> cell list" where
  "series_sub xs ys = map (\<lambda>(a, b). cell_sub a b) (zip xs ys)"

definition series_add :: "cell list \<Rightarrow> cell list \<Rightarrow> cell list" where
  "series_add xs ys = map (\<lambda>(a, b). cell_add a b) (zip xs ys)"

text \<open>
  Lines 108-111 of \<^verbatim>\<open>train_model\<close>: the two derived columns, each followed by the
  \<^verbatim>\<open>drop\<close> of one source column.
\<close>

definition engineer_features :: "frame \<Rightarrow> error + frame" where
  "engineer_features df =
     (case get_column df ''self_score'' of
        Inl e \<Rightarrow> Inl e
      | Inr self_col \<Rightarrow>
     (case get_column df ''opp_score'' of
        Inl e \<Rightarrow> Inl e
      | Inr opp_col \<Rightarrow>
     (case drop_columns (assign_column df ''score_difference'' (series_sub self_col opp_col))
             [''opp_score''] of
        Inl e \<Rightarrow> Inl e
      | Inr df1 \<Rightarrow>
     (case get_column df1 ''self_score'' of
        Inl e \<Rightarrow> Inl e
      | Inr self_col1 \<Rightarrow>
     (case get_column df1 ''result_card_val'' of
        Inl e \<Rightarrow> Inl e
      | Inr card_col \<Rightarrow>
          drop_columns
            (assign_column df1 ''score_if_card_played'' (series_add self_col1 card_col))
            [''result_card_val''])))))"

text \<open>
  Lines 102-115 of \<^verbatim>\<open>train_model\<close>: load the file, engineer the features, and split the
  frame into the features \<^verbatim>\<open>X\<close> and the target \<^verbatim>\<open>y\<close> that \<^verbatim>\<open>regressor.fit\<close> is given a
  part of. The split into train and test rows, the fit and the export belong to
  scikit-learn and are not modelled.
\<close>

definition train_model_X_y ::
  "(string list \<times> data_frame) option \<Rightarrow> error + frame \<times> cell list" where
  "train_model_X_y file =
     (case file of
        None \<Rightarrow> Inl FileNotFoundError
      | Some f \<Rightarrow>
     (case engineer_features (read_csv f) of
        Inl e \<Rightarrow> Inl e
      | Inr df \<Rightarrow>
     (case drop_columns df [''score''] of
        Inl e \<Rightarrow> Inl e
      | Inr X \<Rightarrow>
     (case get_column df ''score'' of
        Inl e \<Rightarrow> Inl e
      | Inr y \<Rightarrow> Inr (X, y)))))"

text \<open>The list \<^verbatim>\<open>feature_names\<close> of lines 119-120.\<close>

definition feature_names :: "string list" where
  "feature_names = [''self_score'', ''opp_stands'', ''result_stand'',
                    ''score_difference'', ''score_if_card_played'']"

text \<open>
  The feature columns as the specification words them: the pair of scores replaced by
  \<^verbatim>\<open>score_difference\<close>, the card value replaced by \<^verbatim>\<open>score_if_card_played\<close>.
\<close>

definition spec_feature_names :: "string list" where
  "spec_feature_names = [''score_difference'', ''opp_stands'',
                         ''score_if_card_played'', ''result_stand'']"

section \<open>Rows as the recorder and the shaper leave them\<close>

text \<open>A row holds no missing value; a row holds one in the label and nowhere else.\<close>

definition resolved :: "decision_row \<Rightarrow> bool" where
  "resolved r \<longleftrightarrow>
     self_score r \<noteq> NaN \<and> opp_score r \<noteq> NaN \<and> opp_stands r \<noteq> NaN \<and>
     result_card_val r \<noteq> NaN \<and> result_stand r \<noteq> NaN \<and> score r \<noteq> NaN"

definition pending :: "decision_row \<Rightarrow> bool" where
  "pending r \<longleftrightarrow>
     self_score r \<noteq> NaN \<and> opp_score r \<noteq> NaN \<and> opp_stands r \<noteq> NaN \<and>
     result_card_val r \<noteq> NaN \<and> result_stand r \<noteq> NaN \<and> score r = NaN"

section \<open>Concrete inputs\<close>

text \<open>
  A stand-at-17 strategy and an always-play strategy in the two slots, a strategy that
  raises, three calls, and sets that end in a win, a loss and a draw, with the rows they
  leave behind on a frame that has rows. \<open>ex_rows\<close> is such a frame: its first row was the
  first of its process and holds its two booleans as floats.
\<close>

definition ex_strategies :: "unit computer_strategies" where
  "ex_strategies =
     \<lparr>bls = (\<lambda>g h s t b. Inr (False, 0, 17 \<le> s)),
      rds = (\<lambda>g h s t b. Inr (True, 0, False))\<rparr>"

definition ex_failing :: "unit strategy" where
  "ex_failing g h s t b = Inl (Raised ''ValueError'')"

definition ex_call1 :: "unit call" where
  "ex_call1 = \<lparr>hand = [2, 3], own_score = 10, other_score = 5, other_stands = False,
               draw = 19 / 20, gen = ()\<rparr>"

definition ex_call2 :: "unit call" where
  "ex_call2 = \<lparr>hand = [2, 3], own_score = 12, other_score = 5, other_stands = False,
               draw = 1 / 2, gen = ()\<rparr>"

definition ex_call3 :: "unit call" where
  "ex_call3 = \<lparr>hand = [3], own_score = 19, other_score = 14, other_stands = True,
               draw = 1 / 4, gen = ()\<rparr>"

definition ex_win :: "unit set_play" where
  "ex_win = \<lparr>calls = [ex_call1, ex_call2, ex_call3], outcome = Inr (Some ''MLTrainee'')\<rparr>"

definition ex_loss :: "unit set_play" where
  "ex_loss = \<lparr>calls = [ex_call1, ex_call3], outcome = Inr (Some ''Opponent'')\<rparr>"

definition ex_draw :: "unit set_play" where
  "ex_draw = \<lparr>calls = [ex_call2, ex_call3], outcome = Inr None\<rparr>"

definition ex_world :: world where
  "ex_world = \<lparr>dataset = dataset_init, csv_file = None\<rparr>"

definition ex_counters :: counters where
  "ex_counters = \<lparr>sets_won = 0, draws = 0, sets_lost = 0\<rparr>"

definition ex_rows :: data_frame where
  "ex_rows =
     [\<lparr>self_score = Num 10, opp_score = Num 5, opp_stands = Num 0,
       result_card_val = Num 2, result_stand = Num 0, score = Num (3 / 10)\<rparr>,
      \<lparr>self_score = Num 12, opp_score = Num 5, opp_stands = Flag False,
       result_card_val = Num 0, result_stand = Flag True, score = Num 1\<rparr>]"

definition ex_win_rows :: data_frame where
  "ex_win_rows =
     [\<lparr>self_score = Num 10, opp_score = Num 5, opp_stands = Flag False,
       result_card_val = Num 2, result_stand = Flag False, score = Num (3 / 10)\<rparr>,
      \<lparr>self_score = Num 12, opp_score = Num 5, opp_stands = Flag False,
       result_card_val = Num 0, result_stand = Flag False, score = Num (3 / 10)\<rparr>,
      \<lparr>self_score = Num 19, opp_score = Num 14, opp_stands = Flag True,
       result_card_val = Num 0, result_stand = Flag True, score = Num 1\<rparr>]"

text \<open>The rows of the won set as the recorder appends them, before the shaping.\<close>

definition ex_win_recorded :: data_frame where
  "ex_win_recorded =
     [\<lparr>self_score = Num 10, opp_score = Num 5, opp_stands = Flag False,
       result_card_val = Num 2, result_stand = Flag False, score = NaN\<rparr>,
      \<lparr>self_score = Num 12, opp_score = Num 5, opp_stands = Flag False,
       result_card_val = Num 0, result_stand = Flag False, score = NaN\<rparr>,
      \<lparr>self_score = Num 19, opp_score = Num 14, opp_stands = Flag True,
       result_card_val = Num 0, result_stand = Flag True, score = NaN\<rparr>]"

definition ex_loss_rows :: data_frame where
  "ex_loss_rows =
     [\<lparr>self_score = Num 10, opp_score = Num 5, opp_stands = Flag False,
       result_card_val = Num 2, result_stand = Flag False, score = Num (- (3 / 10))\<rparr>,
      \<lparr>self_score = Num 19, opp_score = Num 14, opp_stands = Flag True,
       result_card_val = Num 0, result_stand = Flag True, score = Num (- 1)\<rparr>]"

definition ex_draw_rows :: data_frame where
  "ex_draw_rows =
     [\<lparr>self_score = Num 12, opp_score = Num 5, opp_stands = Flag False,
       result_card_val = Num 0, result_stand = Flag False, score = Num 0\<rparr>,
      \<lparr>self_score = Num 19, opp_score = Num 14, opp_stands = Flag True,
       result_card_val = Num 0, result_stand = Flag True, score = Num 0\<rparr>]"

text \<open>The rows that the drawn set leaves on the frame without rows of a fresh process.\<close>

definition ex_first_draw_rows :: data_frame where
  "ex_first_draw_rows =
     [\<lparr>self_score = Num 12, opp_score = Num 5, opp_stands = Num 0,
       result_card_val = Num 0, result_stand = Num 0, score = Num 0\<rparr>,
      \<lparr>self_score = Num 19, opp_score = Num 14, opp_stands = Flag True,
       result_card_val = Num 0, result_stand = Flag True, score = Num 0\<rparr>]"

text \<open>A set that ends with the trainee as the winner and without a call of its strategy.\<close>

definition ex_idle_win :: "unit set_play" where
  "ex_idle_win = \<lparr>calls = [], outcome = Inr (Some ''MLTrainee'')\<rparr>"

text \<open>
  A strategy function of the caller that raises from a score of 19 on, the run of one
  set that it aborts in the third call, and the two rows which that run leaves in the
  global frame, their labels missing.
\<close>

definition ex_picky :: "unit strategy" where
  "ex_picky g h s t b = (if 19 \<le> s then Inl (Raised ''ValueError'') else Inr (False, 0, False))"

definition ex_aborted_run :: "nat \<Rightarrow> unit set_play" where
  "ex_aborted_run i = ex_win"

definition ex_leftover_rows :: data_frame where
  "ex_leftover_rows =
     [\<lparr>self_score = Num 10, opp_score = Num 5, opp_stands = Num 0,
       result_card_val = Num 0, result_stand = Num 0, score = NaN\<rparr>,
      \<lparr>self_score = Num 12, opp_score = Num 5, opp_stands = Flag False,
       result_card_val = Num 0, result_stand = Flag False, score = NaN\<rparr>]"

text \<open>The strategies with one that raises in the first slot, and in the second.\<close>

definition ex_heuristic_raises :: "unit computer_strategies" where
  "ex_heuristic_raises = \<lparr>bls = ex_failing, rds = (\<lambda>g h s t b. Inr (True, 0, False))\<rparr>"

definition ex_random_raises :: "unit computer_strategies" where
  "ex_random_raises = \<lparr>bls = (\<lambda>g h s t b. Inr (False, 0, 17 \<le> s)), rds = ex_failing\<rparr>"

text \<open>The engine of a run of two sets, a draw and then a win.\<close>

definition ex_engine :: "nat \<Rightarrow> unit set_play" where
  "ex_engine i = (if i = 0 then ex_draw else ex_win)"

text \<open>
  Two runs of one set each in the same process: the first set is drawn, the second is
  lost; the state between them.
\<close>

definition ex_first_run :: "nat \<Rightarrow> unit set_play" where
  "ex_first_run i = ex_draw"

definition ex_second_run :: "nat \<Rightarrow> unit set_play" where
  "ex_second_run i = ex_loss"

definition ex_world_after_run :: world where
  "ex_world_after_run =
     \<lparr>dataset = ex_first_draw_rows, csv_file = Some (columns, ex_first_draw_rows)\<rparr>"

text \<open>The features that \<^verbatim>\<open>train_model\<close> derives from the file with the rows \<open>ex_rows\<close>.\<close>

definition ex_X :: frame where
  "ex_X = [(''self_score'', [Num 10, Num 12]), (''opp_stands'', [Num 0, Flag False]),
           (''result_stand'', [Num 0, Flag True]),
           (''score_difference'', [Num 5, Num 7]),
           (''score_if_card_played'', [Num 12, Num 12])]"

section \<open>Filling and positional update\<close>

text \<open>
  Filling leaves a resolved row as it is and turns a pending row into the same row with
  the fill value as its label; the update of \<^verbatim>\<open>iloc[-1, 5]\<close> falls on the label of the last
  row, whichever set recorded it.
\<close>

lemma fill_row_resolved: "resolved r \<Longrightarrow> fill_row v r = r"
  by (cases "self_score r"; cases "opp_score r"; cases "opp_stands r";
      cases "result_card_val r"; cases "result_stand r"; cases "score r")
     (simp_all add: resolved_def fill_row_def)

lemma fill_row_pending: "pending r \<Longrightarrow> fill_row v r = r\<lparr>score := Num v\<rparr>"
  by (cases "self_score r"; cases "opp_score r"; cases "opp_stands r";
      cases "result_card_val r"; cases "result_stand r")
     (simp_all add: pending_def fill_row_def)

lemma fill_cell_not_NaN: "fill_cell v c \<noteq> NaN"
  by (cases c) simp_all

lemma resolved_fill_row: "resolved (fill_row v r)"
  by (simp add: resolved_def fill_row_def fill_cell_not_NaN)

lemma fillna_append: "fillna v (xs @ ys) = fillna v xs @ fillna v ys"
  by (simp add: fillna_def)

lemma length_fillna: "length (fillna v ds) = length ds"
  by (simp add: fillna_def)

lemma fillna_resolved: "list_all resolved ds \<Longrightarrow> fillna v ds = ds"
  by (induction ds) (simp_all add: fillna_def fill_row_resolved)

lemma list_all_resolved_fillna: "list_all resolved (fillna v ds)"
  by (simp add: fillna_def list_all_iff resolved_fill_row)

lemma fillna_nth_pending:
  assumes "list_all pending rows" "i < length rows"
  shows "fillna v (ds @ rows) ! (length ds + i) = (rows ! i)\<lparr>score := Num v\<rparr>"
proof -
  from assms have "pending (rows ! i)" by (simp add: list_all_length)
  then have "fill_row v (rows ! i) = (rows ! i)\<lparr>score := Num v\<rparr>" by (rule fill_row_pending)
  with assms(2) show ?thesis by (simp add: fillna_def nth_append)
qed

lemma iloc_set_last:
  "iloc_set ds (- 1) 5 v =
     (if ds = [] then Inl IndexError
      else Inr (ds[length ds - 1 := (ds ! (length ds - 1))\<lparr>score := v\<rparr>]))"
proof (cases ds rule: rev_cases)
  case Nil
  then show ?thesis by (simp add: iloc_set_def py_position_def)
next
  case (snoc xs x)
  have "py_position (length (xs @ [x])) (- 1) = Some (length xs)"
    by (simp add: py_position_def)
  with snoc show ?thesis by (simp add: iloc_set_def set_column_def)
qed

lemma length_iloc_set: "iloc_set ds i j v = Inr ds' \<Longrightarrow> length ds' = length ds"
  by (auto simp: iloc_set_def split: option.splits if_splits)

lemma list_all_resolved_set_last:
  assumes "list_all resolved ds"
  shows "list_all resolved (ds[k := (ds ! k)\<lparr>score := Num t\<rparr>])"
proof -
  have "resolved ((ds ! k)\<lparr>score := Num t\<rparr>)" if "k < length ds"
    using assms that by (simp add: list_all_length resolved_def)
  then have "resolved (ds[k := (ds ! k)\<lparr>score := Num t\<rparr>] ! n)" if "n < length ds" for n
    using assms that by (cases "n = k") (simp_all add: list_all_length)
  then show ?thesis by (simp add: list_all_length)
qed

lemma fill_set_nth:
  assumes set: "iloc_set (fillna v (ds @ rows)) (- 1) 5 (Num t) = Inr ds'"
    and pend: "list_all pending rows" and i: "i < length rows"
  shows "ds' ! (length ds + i) = (rows ! i)\<lparr>score := Num (if Suc i = length rows then t else v)\<rparr>"
proof -
  let ?F = "fillna v (ds @ rows)"
  have len: "length ?F = length ds + length rows" by (simp add: length_fillna)
  with i have ne: "?F \<noteq> []" by auto
  from set ne have ds': "ds' = ?F[length ?F - 1 := (?F ! (length ?F - 1))\<lparr>score := Num t\<rparr>]"
    by (simp add: iloc_set_last)
  from pend i have "pending (rows ! i)" by (simp add: list_all_length)
  then have row: "fill_row v (rows ! i) = (rows ! i)\<lparr>score := Num v\<rparr>"
    by (rule fill_row_pending)
  from i have Fi: "?F ! (length ds + i) = fill_row v (rows ! i)"
    by (simp add: fillna_def nth_append)
  show ?thesis
  proof (cases "Suc i = length rows")
    case True
    then have "length ?F - 1 = length ds + i" using len by simp
    with ds' Fi row len i True show ?thesis by simp
  next
    case False
    with i have "length ?F - 1 \<noteq> length ds + i" using len by simp
    with ds' Fi row False show ?thesis by simp
  qed
qed

lemma fill_set_prior:
  assumes set: "iloc_set (fillna v (ds @ rows)) (- 1) 5 (Num t) = Inr ds'"
    and res: "list_all resolved ds" and ne: "rows \<noteq> []"
  shows "take (length ds) ds' = ds"
proof -
  let ?F = "fillna v (ds @ rows)"
  have F: "?F = ds @ fillna v rows" using res by (simp add: fillna_append fillna_resolved)
  have len: "length ?F = length ds + length rows" by (simp add: length_fillna)
  from ne len have ne': "?F \<noteq> []" by auto
  from set ne' have ds': "ds' = ?F[length ?F - 1 := (?F ! (length ?F - 1))\<lparr>score := Num t\<rparr>]"
    by (simp add: iloc_set_last)
  from ne len have "length ds \<le> length ?F - 1" by (cases rows) simp_all
  then have "take (length ds) ds' = take (length ds) ?F"
    unfolding ds' by simp
  also have "\<dots> = ds" using F by simp
  finally show ?thesis .
qed

lemma label_update_cong:
  fixes r r' :: decision_row
  assumes "r' = r\<lparr>score := score r'\<rparr>"
  shows "r'\<lparr>score := c\<rparr> = r\<lparr>score := c\<rparr>"
proof -
  have "r'\<lparr>score := c\<rparr> = (r\<lparr>score := score r'\<rparr>)\<lparr>score := c\<rparr>"
    by (rule arg_cong[where f = "\<lambda>x. x\<lparr>score := c\<rparr>", OF assms])
  then show ?thesis by simp
qed

section \<open>One call of the recorder\<close>

lemma record_results_cases:
  assumes "record_results cs u g h s t b sf ds = (res, ds')"
  shows "(\<exists>e. res = Inl e \<and> ds' = ds) \<or> (\<exists>d r. res = Inr d \<and> ds' = ds @ [r] \<and> pending r)"
proof (cases "choose_strategy cs u sf g h s t b")
  case (Inl e)
  with assms have "res = Inl e \<and> ds' = ds" by (auto simp: record_results_def)
  then show ?thesis by blast
next
  case (Inr d)
  obtain pc ci st where d: "d = (pc, ci, st)" by (cases d)
  show ?thesis
  proof (cases "if pc then py_index h ci else Inr 0")
    case (Inl e)
    with assms Inr d have "res = Inl e \<and> ds' = ds" by (auto simp: record_results_def)
    then show ?thesis by blast
  next
    case c: (Inr card)
    let ?r = "\<lparr>self_score = Num (of_int s), opp_score = Num (of_int t), opp_stands = store_flag ds b,
               result_card_val = Num (of_int card), result_stand = store_flag ds st,
               score = NaN\<rparr>"
    from assms Inr d c have "res = Inr d \<and> ds' = ds @ [?r]"
      by (auto simp: record_results_def)
    moreover have "pending ?r" by (simp add: pending_def store_flag_def)
    ultimately show ?thesis by blast
  qed
qed

lemma record_results_returns:
  assumes policy: "choose_strategy cs u sf g h s t b = Inr (play_card, card_index, stand)"
    and index: "play_card \<longrightarrow> - int (length h) \<le> card_index \<and> card_index < int (length h)"
  shows "record_results cs u g h s t b sf ds =
           (Inr (play_card, card_index, stand),
            ds @ [\<lparr>self_score = Num (of_int s), opp_score = Num (of_int t),
                   opp_stands = store_flag ds b,
                   result_card_val =
                     Num (if play_card
                          then of_int (h ! nat (if card_index < 0 then int (length h) + card_index
                                                else card_index))
                          else 0),
                   result_stand = store_flag ds stand, score = NaN\<rparr>])"
proof (cases play_card)
  case True
  with index have "py_index h card_index =
      Inr (h ! nat (if card_index < 0 then int (length h) + card_index else card_index))"
    by (auto simp: py_index_def py_position_def)
  with policy True show ?thesis by (simp add: record_results_def)
next
  case False
  with policy show ?thesis by (simp add: record_results_def)
qed

lemma record_results_raises:
  assumes "choose_strategy cs u sf g h s t b = Inl e"
  shows "record_results cs u g h s t b sf ds = (Inl e, ds)"
  using assms by (simp add: record_results_def)

lemma cell_num_store_flag: "cell_num (store_flag ds b) = cell_num (Flag b)"
  by (simp add: store_flag_def)

text \<open>
  The draws below 0.9 among the \<open>2^53\<close> values of \<^verbatim>\<open>random.random()\<close>, and the number of
  sequences of draws that give a sequence of choices.
\<close>

lemma below_nine_tenths: "draw_of k < 9 / 10 \<longleftrightarrow> k < 8106479329266893"
proof -
  have "draw_of k < 9 / 10 \<longleftrightarrow> real k * 10 < 9 * 2 ^ 53"
    by (simp add: draw_of_def field_simps)
  also have "\<dots> \<longleftrightarrow> real (k * 10) < real (9 * 2 ^ 53)"
    by simp
  also have "\<dots> \<longleftrightarrow> k * 10 < 9 * 2 ^ 53"
    by (simp only: of_nat_less_iff)
  also have "\<dots> \<longleftrightarrow> k < 8106479329266893"
    by (simp, arith)
  finally show ?thesis .
qed

lemma chooses_heuristic_iff:
  assumes "bls cs \<noteq> rds cs"
  shows "choose_strategy cs u None = bls cs \<longleftrightarrow> u < 9 / 10"
    and "choose_strategy cs u None = rds cs \<longleftrightarrow> \<not> u < 9 / 10"
  using assms by (auto simp: choose_strategy_def)

lemma heuristic_share:
  assumes "bls cs \<noteq> rds cs"
  shows "card {k. k < 2 ^ 53 \<and> (choose_strategy cs (draw_of k) None = bls cs) = b} =
         (if b then 8106479329266893 else 900719925474099)"
proof -
  have iff: "choose_strategy cs (draw_of k) None = bls cs \<longleftrightarrow> k < 8106479329266893" for k
    by (simp only: chooses_heuristic_iff(1)[OF assms] below_nine_tenths)
  show ?thesis
  proof (cases b)
    case True
    have "{k. k < 2 ^ 53 \<and> (choose_strategy cs (draw_of k) None = bls cs) = True} =
        {..<8106479329266893}"
      unfolding iff by auto
    with True show ?thesis by simp
  next
    case False
    have "{k. k < 2 ^ 53 \<and> (choose_strategy cs (draw_of k) None = bls cs) = False} =
        {8106479329266893..<2 ^ 53}"
      unfolding iff by auto
    with False show ?thesis by simp
  qed
qed

lemma pattern_count:
  fixes P :: "nat \<Rightarrow> bool"
  shows "card {ks. list_all (\<lambda>k. k < N) ks \<and> map P ks = bs} =
         prod_list (map (\<lambda>b. card {k. k < N \<and> P k = b}) bs)"
proof (induction bs)
  case Nil
  have "{ks. list_all (\<lambda>k. k < N) ks \<and> map P ks = []} = {[]}" by auto
  then show ?case by simp
next
  case (Cons b bs)
  let ?A = "{k. k < N \<and> P k = b}"
  let ?B = "{ks. list_all (\<lambda>k. k < N) ks \<and> map P ks = bs}"
  have "{ks. list_all (\<lambda>k. k < N) ks \<and> map P ks = b # bs} = (\<lambda>(k, ks). k # ks) ` (?A \<times> ?B)"
  proof (intro set_eqI iffI)
    fix ks assume "ks \<in> {ks. list_all (\<lambda>k. k < N) ks \<and> map P ks = b # bs}"
    then obtain k rest where "ks = k # rest" "k < N" "P k = b" "list_all (\<lambda>k. k < N) rest"
      "map P rest = bs"
      by (cases ks) auto
    then show "ks \<in> (\<lambda>(k, ks). k # ks) ` (?A \<times> ?B)" by force
  next
    fix ks assume "ks \<in> (\<lambda>(k, ks). k # ks) ` (?A \<times> ?B)"
    then show "ks \<in> {ks. list_all (\<lambda>k. k < N) ks \<and> map P ks = b # bs}" by auto
  qed
  moreover have "inj_on (\<lambda>(k, ks). k # ks) (?A \<times> ?B)"
    by (auto simp: inj_on_def)
  ultimately have "card {ks. list_all (\<lambda>k. k < N) ks \<and> map P ks = b # bs} = card (?A \<times> ?B)"
    by (simp add: card_image)
  also have "\<dots> = card ?A * card ?B" by (rule card_cartesian_product)
  finally show ?case using Cons.IH by simp
qed

lemma ex_strategies_differ:
  "bls ex_strategies \<noteq> rds ex_strategies"
  "bls ex_heuristic_raises \<noteq> rds ex_heuristic_raises"
  "bls ex_random_raises \<noteq> rds ex_random_raises"
proof -
  have "bls ex_strategies () [] 0 0 False \<noteq> rds ex_strategies () [] 0 0 False"
    by (simp add: ex_strategies_def)
  then show "bls ex_strategies \<noteq> rds ex_strategies" by metis
  have "bls ex_heuristic_raises () [] 0 0 False \<noteq> rds ex_heuristic_raises () [] 0 0 False"
    by (simp add: ex_heuristic_raises_def ex_failing_def)
  then show "bls ex_heuristic_raises \<noteq> rds ex_heuristic_raises" by metis
  have "bls ex_random_raises () [] 0 0 False \<noteq> rds ex_random_raises () [] 0 0 False"
    by (simp add: ex_random_raises_def ex_failing_def)
  then show "bls ex_random_raises \<noteq> rds ex_random_raises" by metis
qed

text \<open>
  Claim C6. For two different strategies in the slots \<^verbatim>\<open>bls\<close> and \<^verbatim>\<open>rds\<close>, a call without a
  strategy function chooses the heuristic \<^verbatim>\<open>bls\<close> exactly when its draw is below 0.9 and the
  random strategy \<^verbatim>\<open>rds\<close> exactly when it is not, and it is the chosen strategy that the call
  runs: its exception is the call's exception, with the frame unchanged, and its decision
  is the decision that the call returns, with one row more in the frame. A call with an
  explicit strategy does not read the draw (\<open>u'\<close> is any other value), and in the calls of
  a set each call chooses by its own draw. Of the \<open>2^53\<close> equally likely values of
  \<^verbatim>\<open>random.random()\<close>, 8106479329266893 choose the heuristic and 900719925474099 the random
  strategy: the shares are the floats 0.9 and 0.1, less than \<open>2^-53\<close> away from nine and
  one tenth. For any number of calls, the sequences of draws that produce a given sequence
  of choices number the product of these counts, call by call: the choices of different
  calls are independent.
\<close>

theorem strategy_choice:
  assumes differ: "bls cs \<noteq> rds cs"
  shows "(choose_strategy cs u None = bls cs \<longleftrightarrow> u < 9 / 10) \<and>
         (choose_strategy cs u None = rds cs \<longleftrightarrow> \<not> u < 9 / 10) \<and>
         ((if u < 9 / 10 then bls cs else rds cs) g h s t b = Inl e \<longrightarrow>
            record_results cs u g h s t b None ds = (Inl e, ds)) \<and>
         ((if u < 9 / 10 then bls cs else rds cs) g h s t b = Inr (play_card, card_index, stand) \<and>
          (play_card \<longrightarrow> - int (length h) \<le> card_index \<and> card_index < int (length h)) \<longrightarrow>
            fst (record_results cs u g h s t b None ds) = Inr (play_card, card_index, stand) \<and>
            length (snd (record_results cs u g h s t b None ds)) = Suc (length ds)) \<and>
         record_results cs u g h s t b (Some f) ds = record_results cs u' g h s t b (Some f) ds \<and>
         play_calls cs None (c # cl) ds =
           (case record_results cs (draw c) (gen c) (hand c) (own_score c) (other_score c)
                   (other_stands c) (Some (if draw c < 9 / 10 then bls cs else rds cs)) ds of
              (Inl x, ds') \<Rightarrow> (Inl x, ds')
            | (Inr d, ds') \<Rightarrow> play_calls cs None cl ds') \<and>
         card {k. k < 2 ^ 53 \<and> choose_strategy cs (draw_of k) None = bls cs} = 8106479329266893 \<and>
         card {k. k < 2 ^ 53 \<and> choose_strategy cs (draw_of k) None = rds cs} = 900719925474099 \<and>
         \<bar>8106479329266893 / 2 ^ 53 - 9 / 10\<bar> < (1 / 2 ^ 53 :: real) \<and>
         card {ks. list_all (\<lambda>k. k < 2 ^ 53) ks \<and>
                   map (\<lambda>k. choose_strategy cs (draw_of k) None = bls cs) ks = bs} =
           prod_list (map (\<lambda>b. if b then 8106479329266893 else 900719925474099) bs)"
proof -
  have chosen: "choose_strategy cs u None = (if u < 9 / 10 then bls cs else rds cs)" for u
    by (simp add: choose_strategy_def)
  note 1 = chooses_heuristic_iff(1)[OF differ, of u]
  note 2 = chooses_heuristic_iff(2)[OF differ, of u]
  have 3: "record_results cs u g h s t b None ds = (Inl e, ds)"
    if "(if u < 9 / 10 then bls cs else rds cs) g h s t b = Inl e"
    using that by (intro record_results_raises) (simp only: chosen)
  have 4: "fst (record_results cs u g h s t b None ds) = Inr (play_card, card_index, stand) \<and>
      length (snd (record_results cs u g h s t b None ds)) = Suc (length ds)"
    if "(if u < 9 / 10 then bls cs else rds cs) g h s t b = Inr (play_card, card_index, stand) \<and>
      (play_card \<longrightarrow> - int (length h) \<le> card_index \<and> card_index < int (length h))"
  proof -
    from that have "choose_strategy cs u None g h s t b = Inr (play_card, card_index, stand)"
      by (simp only: chosen)
    from record_results_returns[OF this, of ds] that show ?thesis by simp
  qed
  have 5: "record_results cs u g h s t b (Some f) ds = record_results cs u' g h s t b (Some f) ds"
    by (simp add: record_results_def choose_strategy_def)
  have 6: "play_calls cs None (c # cl) ds =
           (case record_results cs (draw c) (gen c) (hand c) (own_score c) (other_score c)
                   (other_stands c) (Some (if draw c < 9 / 10 then bls cs else rds cs)) ds of
              (Inl x, ds') \<Rightarrow> (Inl x, ds')
            | (Inr d, ds') \<Rightarrow> play_calls cs None cl ds')"
    by (simp add: record_results_def choose_strategy_def)
  have 7: "card {k. k < 2 ^ 53 \<and> choose_strategy cs (draw_of k) None = bls cs} = 8106479329266893"
    using heuristic_share[OF differ, of True] by simp
  have "{k. k < 2 ^ 53 \<and> choose_strategy cs (draw_of k) None = rds cs} =
      {k. k < 2 ^ 53 \<and> (choose_strategy cs (draw_of k) None = bls cs) = False}"
    using differ by (auto simp: choose_strategy_def)
  then have 8: "card {k. k < 2 ^ 53 \<and> choose_strategy cs (draw_of k) None = rds cs} =
      900719925474099"
    using heuristic_share[OF differ, of False] by simp
  have 9: "\<bar>8106479329266893 / 2 ^ 53 - 9 / 10\<bar> < (1 / 2 ^ 53 :: real)"
    by simp
  have 10: "card {ks. list_all (\<lambda>k. k < 2 ^ 53) ks \<and>
                   map (\<lambda>k. choose_strategy cs (draw_of k) None = bls cs) ks = bs} =
           prod_list (map (\<lambda>b. if b then 8106479329266893 else 900719925474099) bs)"
    by (simp only: pattern_count heuristic_share[OF differ])
  from 1 2 3 4 5 6 7 8 9 10 show ?thesis by blast
qed

theorem strategy_choice_witness:
  "bls ex_strategies \<noteq> rds ex_strategies \<and>
   (1 / 2 :: real) < 9 / 10 \<and>
   choose_strategy ex_strategies (1 / 2) None = bls ex_strategies \<and>
   bls ex_strategies () [2, 3] 12 5 False = Inr (False, 0, False) \<and>
   fst (record_results ex_strategies (1 / 2) () [2, 3] 12 5 False None ex_rows) =
     Inr (False, 0, False) \<and>
   length (snd (record_results ex_strategies (1 / 2) () [2, 3] 12 5 False None ex_rows)) =
     Suc (length ex_rows) \<and>
   \<not> (19 / 20 :: real) < 9 / 10 \<and>
   choose_strategy ex_strategies (19 / 20) None = rds ex_strategies \<and>
   rds ex_strategies () [2, 3] 10 5 False = Inr (True, 0, False) \<and>
   fst (record_results ex_strategies (19 / 20) () [2, 3] 10 5 False None ex_rows) =
     Inr (True, 0, False) \<and>
   bls ex_heuristic_raises \<noteq> rds ex_heuristic_raises \<and>
   bls ex_heuristic_raises () [2, 3] 12 5 False = Inl (Raised ''ValueError'') \<and>
   record_results ex_heuristic_raises (1 / 2) () [2, 3] 12 5 False None ex_rows =
     (Inl (Raised ''ValueError''), ex_rows) \<and>
   bls ex_random_raises \<noteq> rds ex_random_raises \<and>
   rds ex_random_raises () [2, 3] 10 5 False = Inl (Raised ''ValueError'') \<and>
   record_results ex_random_raises (19 / 20) () [2, 3] 10 5 False None ex_rows =
     (Inl (Raised ''ValueError''), ex_rows) \<and>
   card {k. k < 2 ^ 53 \<and> choose_strategy ex_strategies (draw_of k) None = bls ex_strategies} =
     8106479329266893 \<and>
   card {ks. list_all (\<lambda>k. k < 2 ^ 53) ks \<and>
             map (\<lambda>k. choose_strategy ex_strategies (draw_of k) None = bls ex_strategies) ks =
               [True, False]} =
     8106479329266893 * 900719925474099"
proof -
  note d = ex_strategies_differ
  have below: "(1 / 2 :: real) < 9 / 10" and above: "\<not> (19 / 20 :: real) < 9 / 10" by simp_all
  have h: "bls ex_strategies () [2, 3] 12 5 False = Inr (False, 0, False)"
    by (simp add: ex_strategies_def)
  have r: "rds ex_strategies () [2, 3] 10 5 False = Inr (True, 0, False)"
    by (simp add: ex_strategies_def)
  have hx: "bls ex_heuristic_raises () [2, 3] 12 5 False = Inl (Raised ''ValueError'')"
    by (simp add: ex_heuristic_raises_def ex_failing_def)
  have rx: "rds ex_random_raises () [2, 3] 10 5 False = Inl (Raised ''ValueError'')"
    by (simp add: ex_random_raises_def ex_failing_def)
  note low = strategy_choice[OF d(1), where u = "1 / 2" and g = "()" and h = "[2, 3]" and s = 12
      and t = 5 and b = False and ds = ex_rows and play_card = False and card_index = 0
      and stand = False and bs = "[True, False]"]
  note high = strategy_choice[OF d(1), where u = "19 / 20" and g = "()" and h = "[2, 3]" and s = 10
      and t = 5 and b = False and ds = ex_rows and play_card = True and card_index = 0
      and stand = False]
  note lowx = strategy_choice[OF d(2), where u = "1 / 2" and g = "()" and h = "[2, 3]" and s = 12
      and t = 5 and b = False and ds = ex_rows and e = "Raised ''ValueError''"]
  note highx = strategy_choice[OF d(3), where u = "19 / 20" and g = "()" and h = "[2, 3]"
      and s = 10 and t = 5 and b = False and ds = ex_rows and e = "Raised ''ValueError''"]
  from low below have 1: "choose_strategy ex_strategies (1 / 2) None = bls ex_strategies"
    by simp
  from low below h have 2:
    "fst (record_results ex_strategies (1 / 2) () [2, 3] 12 5 False None ex_rows) =
       Inr (False, 0, False)"
    "length (snd (record_results ex_strategies (1 / 2) () [2, 3] 12 5 False None ex_rows)) =
       Suc (length ex_rows)"
    by simp_all
  from high above have 3: "choose_strategy ex_strategies (19 / 20) None = rds ex_strategies"
    by simp
  from high above r have 4:
    "fst (record_results ex_strategies (19 / 20) () [2, 3] 10 5 False None ex_rows) =
       Inr (True, 0, False)"
    by simp
  from lowx below hx have 5:
    "record_results ex_heuristic_raises (1 / 2) () [2, 3] 12 5 False None ex_rows =
       (Inl (Raised ''ValueError''), ex_rows)"
    by simp
  from highx above rx have 6:
    "record_results ex_random_raises (19 / 20) () [2, 3] 10 5 False None ex_rows =
       (Inl (Raised ''ValueError''), ex_rows)"
    by simp
  from low have 7:
    "card {k. k < 2 ^ 53 \<and> choose_strategy ex_strategies (draw_of k) None = bls ex_strategies} =
       8106479329266893"
    by simp
  from low have 8:
    "card {ks. list_all (\<lambda>k. k < 2 ^ 53) ks \<and>
             map (\<lambda>k. choose_strategy ex_strategies (draw_of k) None = bls ex_strategies) ks =
               [True, False]} =
       8106479329266893 * 900719925474099"
    by simp
  from d(1) d(2) d(3) below above h r hx rx 1 2 3 4 5 6 7 8 show ?thesis by blast
qed

text \<open>
  Claim C7. A call whose strategy returns the triple \<^verbatim>\<open>(play_card, card_index, stand)\<close>,
  with an index that the hand has when a card is played, returns that triple and appends
  exactly one row: the scores as passed in, the opponent's stand flag as passed in, the
  value of the hand card at the index (Python counts a negative index from the end) or 0
  when no card is played, the stand flag of the decision, and a missing label. The two
  flags are stored as booleans, except in the first row of a process, where pandas keeps
  the float type of the frame without rows and stores 1.0 for true and 0.0 for false;
  either way the cell has the value of the flag.
\<close>

theorem recorder_appends_one_row:
  assumes policy: "choose_strategy cs u sf g h s t b = Inr (play_card, card_index, stand)"
    and index: "play_card \<longrightarrow> - int (length h) \<le> card_index \<and> card_index < int (length h)"
  shows "record_results cs u g h s t b sf ds =
           (Inr (play_card, card_index, stand),
            ds @ [\<lparr>self_score = Num (of_int s), opp_score = Num (of_int t),
                   opp_stands = (if ds = [] then Num (if b then 1 else 0) else Flag b),
                   result_card_val =
                     Num (if play_card
                          then of_int (h ! nat (if card_index < 0 then int (length h) + card_index
                                                else card_index))
                          else 0),
                   result_stand = (if ds = [] then Num (if stand then 1 else 0) else Flag stand),
                   score = NaN\<rparr>]) \<and>
         cell_num (opp_stands (last (snd (record_results cs u g h s t b sf ds)))) =
           cell_num (Flag b) \<and>
         cell_num (result_stand (last (snd (record_results cs u g h s t b sf ds)))) =
           cell_num (Flag stand)"
proof -
  note r = record_results_returns[OF policy index, of ds]
  from r have "record_results cs u g h s t b sf ds =
           (Inr (play_card, card_index, stand),
            ds @ [\<lparr>self_score = Num (of_int s), opp_score = Num (of_int t),
                   opp_stands = (if ds = [] then Num (if b then 1 else 0) else Flag b),
                   result_card_val =
                     Num (if play_card
                          then of_int (h ! nat (if card_index < 0 then int (length h) + card_index
                                                else card_index))
                          else 0),
                   result_stand = (if ds = [] then Num (if stand then 1 else 0) else Flag stand),
                   score = NaN\<rparr>])"
    by (simp add: store_flag_def)
  moreover from r have
    "cell_num (opp_stands (last (snd (record_results cs u g h s t b sf ds)))) = cell_num (Flag b)"
    "cell_num (result_stand (last (snd (record_results cs u g h s t b sf ds)))) =
       cell_num (Flag stand)"
    by (simp_all add: cell_num_store_flag)
  ultimately show ?thesis by blast
qed

theorem recorder_appends_one_row_witness:
  "choose_strategy ex_strategies (19 / 20) None () [2, 3] 10 5 False = Inr (True, 0, False) \<and>
   - int (length [2, 3 :: int]) \<le> 0 \<and> (0::int) < int (length [2, 3 :: int]) \<and>
   record_results ex_strategies (19 / 20) () [2, 3] 10 5 False None dataset_init =
     (Inr (True, 0, False),
      [\<lparr>self_score = Num 10, opp_score = Num 5, opp_stands = Num 0,
        result_card_val = Num 2, result_stand = Num 0, score = NaN\<rparr>]) \<and>
   record_results ex_strategies (19 / 20) () [2, 3] 10 5 False None ex_rows =
     (Inr (True, 0, False),
      ex_rows @ [\<lparr>self_score = Num 10, opp_score = Num 5, opp_stands = Flag False,
                  result_card_val = Num 2, result_stand = Flag False, score = NaN\<rparr>]) \<and>
   choose_strategy ex_strategies (1 / 4) None () [3] 19 14 True = Inr (False, 0, True) \<and>
   record_results ex_strategies (1 / 4) () [3] 19 14 True None dataset_init =
     (Inr (False, 0, True),
      [\<lparr>self_score = Num 19, opp_score = Num 14, opp_stands = Num 1,
        result_card_val = Num 0, result_stand = Num 1, score = NaN\<rparr>])"
proof -
  have policy: "choose_strategy ex_strategies (19 / 20) None () [2, 3] 10 5 False =
      Inr (True, 0, False)"
    by (simp add: choose_strategy_def ex_strategies_def)
  have index: "True \<longrightarrow> - int (length [2, 3 :: int]) \<le> 0 \<and> (0::int) < int (length [2, 3 :: int])"
    by simp
  have policy': "choose_strategy ex_strategies (1 / 4) None () [3] 19 14 True =
      Inr (False, 0, True)"
    by (simp add: choose_strategy_def ex_strategies_def)
  have index': "False \<longrightarrow> - int (length [3 :: int]) \<le> 0 \<and> (0::int) < int (length [3 :: int])"
    by simp
  have rows: "ex_rows \<noteq> []" by (simp add: ex_rows_def)
  from recorder_appends_one_row[OF policy index, of dataset_init]
    recorder_appends_one_row[OF policy index, of ex_rows]
    recorder_appends_one_row[OF policy' index', of dataset_init] policy policy' rows
  show ?thesis by (simp add: dataset_init_def)
qed

text \<open>
  Claim C10. When the strategy that the call delegates to raises, the call raises the
  same exception and the frame is the one the call found.
\<close>

theorem policy_exception_keeps_dataset:
  assumes "choose_strategy cs u sf g h s t b = Inl e"
  shows "record_results cs u g h s t b sf ds = (Inl e, ds)"
  using assms by (simp add: record_results_def)

theorem policy_exception_keeps_dataset_witness:
  "choose_strategy ex_strategies (1 / 2) (Some ex_failing) () [2, 3] 10 5 False =
     Inl (Raised ''ValueError'') \<and>
   record_results ex_strategies (1 / 2) () [2, 3] 10 5 False (Some ex_failing) ex_rows =
     (Inl (Raised ''ValueError''), ex_rows)"
proof -
  have raises: "choose_strategy ex_strategies (1 / 2) (Some ex_failing) () [2, 3] 10 5 False =
      Inl (Raised ''ValueError'')"
    by (simp add: choose_strategy_def ex_failing_def)
  from policy_exception_keeps_dataset[OF raises, of ex_rows] raises show ?thesis by simp
qed

section \<open>One set: play, then shape\<close>

lemma play_calls_Inr:
  "play_calls cs sf cl ds = (Inr x, ds') \<Longrightarrow>
   \<exists>rows. ds' = ds @ rows \<and> length rows = length cl \<and> list_all pending rows"
proof (induction cl arbitrary: ds)
  case Nil
  then show ?case by simp
next
  case (Cons c cl)
  obtain res ds1 where rr: "record_results cs (draw c) (gen c) (hand c) (own_score c)
      (other_score c) (other_stands c) sf ds = (res, ds1)"
    by (cases "record_results cs (draw c) (gen c) (hand c) (own_score c)
      (other_score c) (other_stands c) sf ds") 
  from Cons.prems rr obtain d where res: "res = Inr d" and rest: "play_calls cs sf cl ds1 = (Inr x, ds')"
    by (cases res) auto
  from record_results_cases[OF rr] res obtain r where r: "ds1 = ds @ [r]" "pending r"
    by auto
  from Cons.IH[OF rest] obtain rows where "ds' = ds1 @ rows" "length rows = length cl" "list_all pending rows"
    by auto
  with r have "ds' = ds @ (r # rows) \<and> length (r # rows) = length (c # cl) \<and> list_all pending (r # rows)"
    by simp
  then show ?case by blast
qed

lemma play_a_set_Inr:
  assumes "play_a_set cs sf p ds = (Inr w, ds1)"
  shows "outcome p = Inr w \<and> (\<exists>rows. ds1 = ds @ rows \<and> length rows = length (calls p) \<and> list_all pending rows)"
proof -
  obtain r0 d0 where pc: "play_calls cs sf (calls p) ds = (r0, d0)"
    by (cases "play_calls cs sf (calls p) ds")
  with assms obtain x where "r0 = Inr x" "d0 = ds1" "outcome p = Inr w"
    by (cases r0) (auto simp: play_a_set_def)
  with pc play_calls_Inr[of cs sf "calls p" ds x ds1] show ?thesis by simp
qed

lemma shape_win:
  assumes "shape_rewards (Some ''MLTrainee'') (cnt, ds1) = (Inr cnt', ds')"
  shows "iloc_set (fillna (3 / 10) ds1) (- 1) 5 (Num 1) = Inr ds'"
  using assms by (auto simp: shape_rewards_def split: sum.splits)

lemma shape_loss:
  assumes "shape_rewards (Some n) (cnt, ds1) = (Inr cnt', ds')" "n \<noteq> ''MLTrainee''"
  shows "iloc_set (fillna (- (3 / 10)) ds1) (- 1) 5 (Num (- 1)) = Inr ds'"
  using assms by (auto simp: shape_rewards_def split: sum.splits)

lemma shape_draw:
  assumes "shape_rewards None (cnt, ds1) = (Inr cnt', ds')"
  shows "ds' = fillna 0 ds1"
  using assms by (auto simp: shape_rewards_def)

lemma loop_body_Inr:
  assumes "loop_body cs sf p (cnt, ds) = (Inr cnt', ds')"
  obtains w rows where "outcome p = Inr w" "play_a_set cs sf p ds = (Inr w, ds @ rows)"
    "length rows = length (calls p)" "list_all pending rows"
    "shape_rewards w (cnt, ds @ rows) = (Inr cnt', ds')"
proof -
  obtain r0 ds1 where pl: "play_a_set cs sf p ds = (r0, ds1)"
    by (cases "play_a_set cs sf p ds")
  with assms obtain w where w: "r0 = Inr w" and sh: "shape_rewards w (cnt, ds1) = (Inr cnt', ds')"
    by (cases r0) (auto simp: loop_body_def)
  from play_a_set_Inr[of cs sf p ds w ds1] pl w obtain rows where
    "outcome p = Inr w" "ds1 = ds @ rows" "length rows = length (calls p)" "list_all pending rows"
    by auto
  with pl w sh that show ?thesis by simp
qed

lemma shape_rewards_resolved:
  assumes "shape_rewards w (cnt, ds1) = (Inr cnt', ds')"
  shows "list_all resolved ds'"
proof (cases w)
  case None
  with assms have "ds' = fillna 0 ds1" by (simp add: shape_draw)
  then show ?thesis by (simp add: list_all_resolved_fillna)
next
  case (Some n)
  have *: "list_all resolved ds'" if "iloc_set (fillna v ds1) (- 1) 5 (Num t) = Inr ds'" for v t
  proof -
    have "list_all resolved (fillna v ds1)" by (rule list_all_resolved_fillna)
    then have "list_all resolved ((fillna v ds1)[length (fillna v ds1) - 1 :=
        (fillna v ds1 ! (length (fillna v ds1) - 1))\<lparr>score := Num t\<rparr>])"
      by (rule list_all_resolved_set_last)
    with that show ?thesis by (simp add: iloc_set_last split: if_splits)
  qed
  show ?thesis
  proof (cases "n = ''MLTrainee''")
    case True
    with assms Some show ?thesis by (auto intro: * dest: shape_win)
  next
    case False
    with assms Some show ?thesis by (auto intro: * dest: shape_loss)
  qed
qed

lemma shape_rewards_length:
  assumes "shape_rewards w (cnt, ds1) = (Inr cnt', ds')"
  shows "length ds' = length ds1"
proof (cases w)
  case None
  with assms have "ds' = fillna 0 ds1" by (simp add: shape_draw)
  then show ?thesis by (simp add: length_fillna)
next
  case (Some n)
  show ?thesis
  proof (cases "n = ''MLTrainee''")
    case True
    with assms Some have "iloc_set (fillna (3 / 10) ds1) (- 1) 5 (Num 1) = Inr ds'"
      by (simp add: shape_win)
    from length_iloc_set[OF this] show ?thesis by (simp add: length_fillna)
  next
    case False
    with assms Some have "iloc_set (fillna (- (3 / 10)) ds1) (- 1) 5 (Num (- 1)) = Inr ds'"
      by (simp add: shape_loss)
    from length_iloc_set[OF this] show ?thesis by (simp add: length_fillna)
  qed
qed

lemma loop_body_resolved:
  assumes "loop_body cs sf p (cnt, ds) = (Inr cnt', ds')"
  shows "list_all resolved ds'"
  using assms by (elim loop_body_Inr) (rule shape_rewards_resolved)

lemma loop_body_length:
  assumes "loop_body cs sf p (cnt, ds) = (Inr cnt', ds')"
  shows "length ds' = length ds + length (calls p)"
proof -
  from assms obtain w rows where "length rows = length (calls p)"
    "shape_rewards w (cnt, ds @ rows) = (Inr cnt', ds')"
    by (rule loop_body_Inr)
  with shape_rewards_length[of w cnt "ds @ rows" cnt' ds'] show ?thesis by simp
qed

text \<open>
  The loop body on the concrete sets, evaluated.
\<close>

lemmas ex_defs = ex_win_def ex_loss_def ex_draw_def ex_call1_def ex_call2_def ex_call3_def
  ex_strategies_def ex_counters_def ex_rows_def ex_win_rows_def ex_win_recorded_def ex_loss_rows_def ex_draw_rows_def ex_first_draw_rows_def ex_leftover_rows_def ex_idle_win_def ex_picky_def
  ex_world_def dataset_init_def

lemmas run_defs = loop_body_def play_a_set_def record_results_def choose_strategy_def
  store_flag_def py_index_def py_position_def shape_rewards_def fillna_def fill_row_def iloc_set_def set_column_def

lemma ex_win_body:
  "loop_body ex_strategies None ex_win (ex_counters, ex_rows) =
     (Inr \<lparr>sets_won = 1, draws = 0, sets_lost = 0\<rparr>, ex_rows @ ex_win_rows)"
  by (simp add: ex_defs run_defs)

lemma ex_loss_body:
  "loop_body ex_strategies None ex_loss (ex_counters, ex_rows) =
     (Inr \<lparr>sets_won = 0, draws = 0, sets_lost = 1\<rparr>, ex_rows @ ex_loss_rows)"
  by (simp add: ex_defs run_defs)

lemma ex_draw_body:
  "loop_body ex_strategies None ex_draw (cnt, ex_rows) =
     (Inr (cnt\<lparr>draws := draws cnt + 1\<rparr>), ex_rows @ ex_draw_rows)"
  by (simp add: ex_defs run_defs)

lemma ex_draw_body_init:
  "loop_body ex_strategies None ex_draw (ex_counters, []) =
     (Inr \<lparr>sets_won = 0, draws = 1, sets_lost = 0\<rparr>, ex_first_draw_rows)"
  by (simp add: ex_defs run_defs)

lemma ex_win_body_after_draw:
  "loop_body ex_strategies None ex_win (\<lparr>sets_won = 0, draws = 1, sets_lost = 0\<rparr>, ex_first_draw_rows) =
     (Inr \<lparr>sets_won = 1, draws = 1, sets_lost = 0\<rparr>, ex_first_draw_rows @ ex_win_rows)"
  by (simp add: ex_defs run_defs)

lemma ex_loss_body_after_draw:
  "loop_body ex_strategies None ex_loss (\<lparr>sets_won = 0, draws = 0, sets_lost = 0\<rparr>, ex_first_draw_rows) =
     (Inr \<lparr>sets_won = 0, draws = 0, sets_lost = 1\<rparr>, ex_first_draw_rows @ ex_loss_rows)"
  by (simp add: ex_defs run_defs)

text \<open>
  Claim C1. When a set ends with the trainee as the winner and the loop body has run,
  the frame has grown by one row per call of the set, and the rows recorded during that
  set carry the label 0.3, except the last of them, which carries the label 1.
\<close>

theorem win_labels:
  assumes body: "loop_body cs sf p (cnt, ds) = (Inr cnt', ds')"
    and win: "outcome p = Inr (Some ''MLTrainee'')"
  shows "length ds' = length ds + length (calls p) \<and>
         (\<forall>i < length (calls p).
            score (ds' ! (length ds + i)) =
              (if Suc i = length (calls p) then Num 1 else Num (3 / 10)))"
proof -
  from body obtain w rows where w: "outcome p = Inr w"
    and len: "length rows = length (calls p)" and pend: "list_all pending rows"
    and sh: "shape_rewards w (cnt, ds @ rows) = (Inr cnt', ds')"
    by (rule loop_body_Inr)
  from w win have "w = Some ''MLTrainee''" by simp
  with sh have set: "iloc_set (fillna (3 / 10) (ds @ rows)) (- 1) 5 (Num 1) = Inr ds'"
    by (simp add: shape_win)
  from length_iloc_set[OF set] len have "length ds' = length ds + length (calls p)"
    by (simp add: length_fillna)
  moreover have "score (ds' ! (length ds + i)) =
      (if Suc i = length (calls p) then Num 1 else Num (3 / 10))" if "i < length (calls p)" for i
    using fill_set_nth[OF set pend, of i] that len by simp
  ultimately show ?thesis by blast
qed

theorem win_labels_witness:
  "loop_body ex_strategies None ex_win (ex_counters, ex_rows) =
     (Inr \<lparr>sets_won = 1, draws = 0, sets_lost = 0\<rparr>, ex_rows @ ex_win_rows) \<and>
   outcome ex_win = Inr (Some ''MLTrainee'') \<and>
   length (ex_rows @ ex_win_rows) = length ex_rows + length (calls ex_win) \<and>
   score ((ex_rows @ ex_win_rows) ! (length ex_rows + 0)) = Num (3 / 10) \<and>
   score ((ex_rows @ ex_win_rows) ! (length ex_rows + 1)) = Num (3 / 10) \<and>
   score ((ex_rows @ ex_win_rows) ! (length ex_rows + 2)) = Num 1"
proof -
  have win: "outcome ex_win = Inr (Some ''MLTrainee'')" by (simp add: ex_win_def)
  note labels = win_labels[OF ex_win_body win]
  from labels have len: "length (ex_rows @ ex_win_rows) = length ex_rows + length (calls ex_win)"
    by (rule conjunct1)
  note at = labels[THEN conjunct2, rule_format]
  have "score ((ex_rows @ ex_win_rows) ! (length ex_rows + 0)) = Num (3 / 10)"
    using at[of 0] by (simp add: ex_win_def)
  moreover have "score ((ex_rows @ ex_win_rows) ! (length ex_rows + 1)) = Num (3 / 10)"
    using at[of 1] by (simp add: ex_win_def)
  moreover have "score ((ex_rows @ ex_win_rows) ! (length ex_rows + 2)) = Num 1"
    using at[of 2] by (simp add: ex_win_def)
  ultimately show ?thesis using ex_win_body win len by blast
qed

text \<open>
  Claim C2. When a set ends with another winner than the trainee, the rows recorded
  during that set carry the label -0.3, except the last of them, which carries -1; when
  the set ends without a winner, every row recorded during it carries the label 0.
\<close>

theorem loss_and_draw_labels:
  assumes body: "loop_body cs sf p (cnt, ds) = (Inr cnt', ds')"
  shows "length ds' = length ds + length (calls p) \<and>
         ((\<exists>n. outcome p = Inr (Some n) \<and> n \<noteq> ''MLTrainee'') \<longrightarrow>
            (\<forall>i < length (calls p).
               score (ds' ! (length ds + i)) =
                 (if Suc i = length (calls p) then Num (- 1) else Num (- (3 / 10))))) \<and>
         (outcome p = Inr None \<longrightarrow>
            (\<forall>i < length (calls p). score (ds' ! (length ds + i)) = Num 0))"
proof -
  from body obtain w rows where w: "outcome p = Inr w"
    and len: "length rows = length (calls p)" and pend: "list_all pending rows"
    and sh: "shape_rewards w (cnt, ds @ rows) = (Inr cnt', ds')"
    by (rule loop_body_Inr)
  have loss: "score (ds' ! (length ds + i)) =
      (if Suc i = length (calls p) then Num (- 1) else Num (- (3 / 10)))"
    if n: "outcome p = Inr (Some n)" "n \<noteq> ''MLTrainee''" and i: "i < length (calls p)" for n i
  proof -
    from w n have "w = Some n" by simp
    with sh n have "iloc_set (fillna (- (3 / 10)) (ds @ rows)) (- 1) 5 (Num (- 1)) = Inr ds'"
      by (simp add: shape_loss)
    from fill_set_nth[OF this pend, of i] i len show ?thesis by simp
  qed
  have draw: "score (ds' ! (length ds + i)) = Num 0"
    if n: "outcome p = Inr None" and i: "i < length (calls p)" for i
  proof -
    from w n have "w = None" by simp
    with sh have "ds' = fillna 0 (ds @ rows)" by (simp add: shape_draw)
    with fillna_nth_pending[OF pend, of i 0 ds] i len show ?thesis by simp
  qed
  have "length ds' = length ds + length (calls p)"
  proof (cases w)
    case None
    with sh have "ds' = fillna 0 (ds @ rows)" by (simp add: shape_draw)
    with len show ?thesis by (simp add: length_fillna)
  next
    case (Some n)
    show ?thesis
    proof (cases "n = ''MLTrainee''")
      case True
      with sh Some have "iloc_set (fillna (3 / 10) (ds @ rows)) (- 1) 5 (Num 1) = Inr ds'"
        by (simp add: shape_win)
      from length_iloc_set[OF this] len show ?thesis by (simp add: length_fillna)
    next
      case False
      with sh Some have "iloc_set (fillna (- (3 / 10)) (ds @ rows)) (- 1) 5 (Num (- 1)) = Inr ds'"
        by (simp add: shape_loss)
      from length_iloc_set[OF this] len show ?thesis by (simp add: length_fillna)
    qed
  qed
  with loss draw show ?thesis by blast
qed

theorem loss_and_draw_labels_witness:
  "loop_body ex_strategies None ex_loss (ex_counters, ex_rows) =
     (Inr \<lparr>sets_won = 0, draws = 0, sets_lost = 1\<rparr>, ex_rows @ ex_loss_rows) \<and>
   outcome ex_loss = Inr (Some ''Opponent'') \<and> ''Opponent'' \<noteq> ''MLTrainee'' \<and>
   score ((ex_rows @ ex_loss_rows) ! (length ex_rows + 0)) = Num (- (3 / 10)) \<and>
   score ((ex_rows @ ex_loss_rows) ! (length ex_rows + 1)) = Num (- 1) \<and>
   loop_body ex_strategies None ex_draw (ex_counters, ex_rows) =
     (Inr (ex_counters\<lparr>draws := draws ex_counters + 1\<rparr>), ex_rows @ ex_draw_rows) \<and>
   outcome ex_draw = Inr None \<and>
   score ((ex_rows @ ex_draw_rows) ! (length ex_rows + 0)) = Num 0 \<and>
   score ((ex_rows @ ex_draw_rows) ! (length ex_rows + 1)) = Num 0"
proof -
  have loss: "\<exists>n. outcome ex_loss = Inr (Some n) \<and> n \<noteq> ''MLTrainee''"
    by (simp add: ex_loss_def)
  have draw: "outcome ex_draw = Inr None" by (simp add: ex_draw_def)
  note l = loss_and_draw_labels[OF ex_loss_body, THEN conjunct2, THEN conjunct1, rule_format, OF loss]
  note d = loss_and_draw_labels[OF ex_draw_body, THEN conjunct2, THEN conjunct2, rule_format, OF draw]
  have "score ((ex_rows @ ex_loss_rows) ! (length ex_rows + 0)) = Num (- (3 / 10))"
    using l[of 0] by (simp add: ex_loss_def)
  moreover have "score ((ex_rows @ ex_loss_rows) ! (length ex_rows + 1)) = Num (- 1)"
    using l[of 1] by (simp add: ex_loss_def)
  moreover have "score ((ex_rows @ ex_draw_rows) ! (length ex_rows + 0)) = Num 0"
    using d[of 0] by (simp add: ex_draw_def)
  moreover have "score ((ex_rows @ ex_draw_rows) ! (length ex_rows + 1)) = Num 0"
    using d[of 1] by (simp add: ex_draw_def)
  moreover have "outcome ex_loss = Inr (Some ''Opponent'')" by (simp add: ex_loss_def)
  moreover have "''Opponent'' \<noteq> ''MLTrainee''" by simp
  ultimately show ?thesis using ex_loss_body ex_draw_body draw by blast
qed

section \<open>A run of sets\<close>

lemma run_sets_resolved:
  "run_sets cs sf ps (cnt, ds) = (Inr cnt', ds') \<Longrightarrow> list_all resolved ds \<Longrightarrow>
   list_all resolved ds'"
proof (induction ps arbitrary: cnt ds)
  case Nil
  then show ?case by simp
next
  case (Cons p ps)
  obtain r1 ds1 where b: "loop_body cs sf p (cnt, ds) = (r1, ds1)"
    by (cases "loop_body cs sf p (cnt, ds)")
  with Cons.prems(1) obtain c1 where c1: "r1 = Inr c1"
    and rest: "run_sets cs sf ps (c1, ds1) = (Inr cnt', ds')"
    by (cases r1) auto
  from b c1 have "list_all resolved ds1" by (simp add: loop_body_resolved)
  with Cons.IH[OF rest] show ?case .
qed

lemma run_sets_resolved_nonempty:
  assumes "run_sets cs sf ps (cnt, ds) = (Inr cnt', ds')" and "ps \<noteq> []"
  shows "list_all resolved ds'"
proof -
  from assms(2) obtain p rest where ps: "ps = p # rest" by (cases ps) auto
  obtain r1 ds1 where b: "loop_body cs sf p (cnt, ds) = (r1, ds1)"
    by (cases "loop_body cs sf p (cnt, ds)")
  with assms(1) ps obtain c1 where c1: "r1 = Inr c1"
    and rest: "run_sets cs sf rest (c1, ds1) = (Inr cnt', ds')"
    by (cases r1) auto
  from b c1 have "list_all resolved ds1" by (simp add: loop_body_resolved)
  with rest show ?thesis by (rule run_sets_resolved)
qed

lemma run_sets_length:
  "run_sets cs sf ps (cnt, ds) = (Inr cnt', ds') \<Longrightarrow>
   length ds' = length ds + sum_list (map (\<lambda>p. length (calls p)) ps)"
proof (induction ps arbitrary: cnt ds)
  case Nil
  then show ?case by simp
next
  case (Cons p ps)
  obtain r1 ds1 where b: "loop_body cs sf p (cnt, ds) = (r1, ds1)"
    by (cases "loop_body cs sf p (cnt, ds)")
  with Cons.prems(1) obtain c1 where c1: "r1 = Inr c1"
    and rest: "run_sets cs sf ps (c1, ds1) = (Inr cnt', ds')"
    by (cases r1) auto
  from b c1 have "length ds1 = length ds + length (calls p)" by (simp add: loop_body_length)
  with Cons.IH[OF rest] show ?case by simp
qed

lemma shape_rewards_frame:
  assumes res: "list_all resolved ds" and pend: "list_all pending rows" and ne: "rows \<noteq> []"
  shows "\<exists>cnt' ds2. shape_rewards w (cnt, ds @ rows) = (Inr cnt', ds2) \<and>
           length ds2 = length (ds @ rows) \<and> take (length ds) ds2 = ds \<and>
           (\<forall>i < length (ds @ rows). ds2 ! i = ((ds @ rows) ! i)\<lparr>score := score (ds2 ! i)\<rparr>)"
proof -
  have F: "fillna v (ds @ rows) = ds @ map (\<lambda>r. r\<lparr>score := Num v\<rparr>) rows" for v
  proof -
    have "fillna v rows = map (\<lambda>r. r\<lparr>score := Num v\<rparr>) rows"
      using pend by (induction rows) (simp_all add: fillna_def fill_row_pending)
    with res show ?thesis by (simp add: fillna_append fillna_resolved)
  qed
  have same: "\<forall>i < length (ds @ rows). (ds @ map (\<lambda>r. r\<lparr>score := Num v\<rparr>) rows) ! i =
      ((ds @ rows) ! i)\<lparr>score := score ((ds @ map (\<lambda>r. r\<lparr>score := Num v\<rparr>) rows) ! i)\<rparr>" for v
    by (auto simp: nth_append)
  have upd: "\<exists>ds2. iloc_set (fillna v (ds @ rows)) (- 1) 5 (Num t) = Inr ds2 \<and>
           length ds2 = length (ds @ rows) \<and> take (length ds) ds2 = ds \<and>
           (\<forall>i < length (ds @ rows). ds2 ! i = ((ds @ rows) ! i)\<lparr>score := score (ds2 ! i)\<rparr>)" for v t
  proof -
    let ?F = "fillna v (ds @ rows)"
    let ?k = "length ?F - 1"
    let ?ds2 = "?F[?k := (?F ! ?k)\<lparr>score := Num t\<rparr>]"
    have len: "length ?F = length ds + length rows" by (simp add: length_fillna)
    with ne have neF: "?F \<noteq> []" by auto
    then have 1: "iloc_set ?F (- 1) 5 (Num t) = Inr ?ds2" by (simp add: iloc_set_last)
    have 2: "length ?ds2 = length (ds @ rows)" using len by simp
    have 3: "take (length ds) ?ds2 = ds" using fill_set_prior[OF 1 res ne] .
    have 4: "?ds2 ! i = ((ds @ rows) ! i)\<lparr>score := score (?ds2 ! i)\<rparr>" if "i < length (ds @ rows)" for i
    proof (cases "i = ?k")
      case True
      have "?F ! i = ((ds @ rows) ! i)\<lparr>score := score (?F ! i)\<rparr>"
        using same[of v, rule_format, OF that] by (simp only: F)
      then have "(?F ! i)\<lparr>score := Num t\<rparr> = ((ds @ rows) ! i)\<lparr>score := Num t\<rparr>"
        by (rule label_update_cong)
      with True that len show ?thesis by simp
    next
      case False
      then have "?ds2 ! i = ?F ! i" by simp
      with same[of v, rule_format, OF that] show ?thesis by (simp only: F)
    qed
    from 1 2 3 4 show ?thesis by blast
  qed
  show ?thesis
  proof (cases w)
    case None
    have "shape_rewards w (cnt, ds @ rows) = (Inr (cnt\<lparr>draws := draws cnt + 1\<rparr>), fillna 0 (ds @ rows))"
      using None by (simp add: shape_rewards_def)
    moreover have "length (fillna 0 (ds @ rows)) = length (ds @ rows)" by (simp add: length_fillna)
    moreover have "take (length ds) (fillna 0 (ds @ rows)) = ds" by (simp add: F)
    moreover have "\<forall>i < length (ds @ rows). fillna 0 (ds @ rows) ! i =
        ((ds @ rows) ! i)\<lparr>score := score (fillna 0 (ds @ rows) ! i)\<rparr>"
      using same[of 0] by (simp only: F)
    ultimately show ?thesis by blast
  next
    case (Some n)
    show ?thesis
    proof (cases "n = ''MLTrainee''")
      case True
      from upd[of "3 / 10" 1] obtain ds2 where
        "iloc_set (fillna (3 / 10) (ds @ rows)) (- 1) 5 (Num 1) = Inr ds2"
        "length ds2 = length (ds @ rows)" "take (length ds) ds2 = ds"
        "\<forall>i < length (ds @ rows). ds2 ! i = ((ds @ rows) ! i)\<lparr>score := score (ds2 ! i)\<rparr>"
        by blast
      moreover from this(1) Some True
      have "shape_rewards w (cnt, ds @ rows) = (Inr (cnt\<lparr>sets_won := sets_won cnt + 1\<rparr>), ds2)"
        by (simp add: shape_rewards_def)
      ultimately show ?thesis by blast
    next
      case False
      from upd[of "- (3 / 10)" "- 1"] obtain ds2 where
        "iloc_set (fillna (- (3 / 10)) (ds @ rows)) (- 1) 5 (Num (- 1)) = Inr ds2"
        "length ds2 = length (ds @ rows)" "take (length ds) ds2 = ds"
        "\<forall>i < length (ds @ rows). ds2 ! i = ((ds @ rows) ! i)\<lparr>score := score (ds2 ! i)\<rparr>"
        by blast
      moreover from this(1) Some False
      have "shape_rewards w (cnt, ds @ rows) = (Inr (cnt\<lparr>sets_lost := sets_lost cnt + 1\<rparr>), ds2)"
        by (simp add: shape_rewards_def)
      ultimately show ?thesis by blast
    qed
  qed
qed

lemma run_sets_prefix:
  "run_sets cs sf ps (cnt, ds) = (Inr cnt', ds') \<Longrightarrow> list_all resolved ds \<Longrightarrow>
   \<forall>p \<in> set ps. records_a_decision p \<Longrightarrow> take (length ds) ds' = ds"
proof (induction ps arbitrary: cnt ds)
  case Nil
  then show ?case by simp
next
  case (Cons p ps)
  obtain r1 ds1 where b: "loop_body cs sf p (cnt, ds) = (r1, ds1)"
    by (cases "loop_body cs sf p (cnt, ds)")
  with Cons.prems(1) obtain c1 where c1: "r1 = Inr c1"
    and rest: "run_sets cs sf ps (c1, ds1) = (Inr cnt', ds')"
    by (cases r1) auto
  from b c1 have body: "loop_body cs sf p (cnt, ds) = (Inr c1, ds1)" by simp
  then have res1: "list_all resolved ds1" by (rule loop_body_resolved)
  from body obtain w rows where rows: "length rows = length (calls p)" "list_all pending rows"
    "shape_rewards w (cnt, ds @ rows) = (Inr c1, ds1)"
    by (rule loop_body_Inr)
  from Cons.prems(3) rows(1) have ne: "rows \<noteq> []" by (auto simp: records_a_decision_def)
  from shape_rewards_frame[OF Cons.prems(2) rows(2) ne, of w cnt] rows(3)
  have first: "take (length ds) ds1 = ds" and len: "length ds1 = length (ds @ rows)" by auto
  from Cons.IH[OF rest res1] Cons.prems(3) have "take (length ds1) ds' = ds1" by simp
  then have "take (length ds) (take (length ds1) ds') = take (length ds) ds1" by simp
  with len first show ?case by (simp add: min_def)
qed

lemma sum_list_upt: "sum_list (map f [0..<n]) = (\<Sum>i<n. f i)"
  by (induction n) simp_all

lemma create_dataset_world:
  assumes "run_sets cs sf (map engine [0..<nat n])
             (\<lparr>sets_won = 0, draws = 0, sets_lost = 0\<rparr>, dataset w) = (Inr cnt, ds)"
  shows "snd (create_dataset cs engine t_start t_end n sf w) =
           w\<lparr>dataset := ds, csv_file := Some (columns, ds)\<rparr>"
  using assms by (simp add: create_dataset_def Let_def)

lemma ex_run_draw:
  "run_sets ex_strategies None [ex_draw] (ex_counters, dataset_init) =
     (Inr \<lparr>sets_won = 0, draws = 1, sets_lost = 0\<rparr>, ex_first_draw_rows)"
  using ex_draw_body_init by (simp add: dataset_init_def)

lemma ex_play_win_after_draw:
  "play_a_set ex_strategies None ex_win ex_first_draw_rows =
     (Inr (Some ''MLTrainee''), ex_first_draw_rows @ ex_win_recorded)"
  by (simp add: ex_defs run_defs)

lemma ex_run_two:
  "run_sets ex_strategies None (map ex_engine [0..<nat 2])
     (\<lparr>sets_won = 0, draws = 0, sets_lost = 0\<rparr>, dataset_init) =
   (Inr \<lparr>sets_won = 1, draws = 1, sets_lost = 0\<rparr>, ex_first_draw_rows @ ex_win_rows)"
proof -
  have "map ex_engine [0..<nat 2] = [ex_draw, ex_win]"
    by (simp add: ex_engine_def upt_rec)
  moreover have "dataset_init = []" by (simp add: dataset_init_def)
  ultimately show ?thesis
    using ex_draw_body_init ex_win_body_after_draw by (simp add: ex_counters_def)
qed

lemma ex_first_run_sets:
  "run_sets ex_strategies None (map ex_first_run [0..<nat 1])
     (\<lparr>sets_won = 0, draws = 0, sets_lost = 0\<rparr>, dataset ex_world) =
   (Inr \<lparr>sets_won = 0, draws = 1, sets_lost = 0\<rparr>, ex_first_draw_rows)"
  using ex_draw_body_init
  by (simp add: ex_first_run_def ex_world_def dataset_init_def ex_counters_def)

lemma ex_second_run_sets:
  "run_sets ex_strategies None (map ex_second_run [0..<nat 1])
     (\<lparr>sets_won = 0, draws = 0, sets_lost = 0\<rparr>, dataset ex_world_after_run) =
   (Inr \<lparr>sets_won = 0, draws = 0, sets_lost = 1\<rparr>, ex_first_draw_rows @ ex_loss_rows)"
  using ex_loss_body_after_draw
  by (simp add: ex_second_run_def ex_world_after_run_def)

lemma ex_first_run_world:
  "snd (create_dataset ex_strategies ex_first_run 0 (5 / 2) 1 None ex_world) = ex_world_after_run"
  using create_dataset_world[OF ex_first_run_sets, of 0 "5 / 2"]
  by (simp add: ex_world_def ex_world_after_run_def)

lemma ex_second_run_world:
  "snd (create_dataset ex_strategies ex_second_run 0 (5 / 2) 1 None ex_world_after_run) =
     \<lparr>dataset = ex_first_draw_rows @ ex_loss_rows,
      csv_file = Some (columns, ex_first_draw_rows @ ex_loss_rows)\<rparr>"
  using create_dataset_world[OF ex_second_run_sets, of 0 "5 / 2"]
  by (simp add: ex_world_after_run_def)

text \<open>
  Claim C3 as worded fails for two kinds of set, in each of which the loop body completes
  and writes a label of a row that an earlier set appended. A set that the trainee wins
  without a call of its strategy appends no row, so the positional update of line 72
  falls on the last row of the set before: here a row of a drawn set goes from the label
  0 to the label 1. And a run that a raising strategy aborts leaves its rows in the
  global frame with their labels missing, so the \<^verbatim>\<open>fillna\<close> of the next completed set fills
  them: here the two rows that an aborted run left receive the label -0.3 of a set that
  is lost later.
\<close>

theorem shaping_touches_earlier_rows:
  "list_all resolved dataset_init \<and>
   run_sets ex_strategies None [ex_draw] (ex_counters, dataset_init) =
     (Inr \<lparr>sets_won = 0, draws = 1, sets_lost = 0\<rparr>, ex_first_draw_rows) \<and>
   play_a_set ex_strategies None ex_idle_win ex_first_draw_rows =
     (Inr (Some ''MLTrainee''), ex_first_draw_rows) \<and>
   loop_body ex_strategies None ex_idle_win
       (\<lparr>sets_won = 0, draws = 1, sets_lost = 0\<rparr>, ex_first_draw_rows) =
     (Inr \<lparr>sets_won = 1, draws = 1, sets_lost = 0\<rparr>,
      [ex_first_draw_rows ! 0, (ex_first_draw_rows ! 1)\<lparr>score := Num 1\<rparr>]) \<and>
   score (ex_first_draw_rows ! 1) = Num 0 \<and>
   take (length ex_first_draw_rows)
       [ex_first_draw_rows ! 0, (ex_first_draw_rows ! 1)\<lparr>score := Num 1\<rparr>] \<noteq>
     ex_first_draw_rows \<and>
   create_dataset ex_strategies ex_aborted_run 0 (5 / 2) 1 (Some ex_picky) ex_world =
     (Inl (Raised ''ValueError''), \<lparr>dataset = ex_leftover_rows, csv_file = None\<rparr>) \<and>
   records_a_decision ex_loss \<and>
   play_a_set ex_strategies None ex_loss ex_leftover_rows =
     (Inr (Some ''Opponent''), ex_leftover_rows @ map (\<lambda>r. r\<lparr>score := NaN\<rparr>) ex_loss_rows) \<and>
   loop_body ex_strategies None ex_loss (ex_counters, ex_leftover_rows) =
     (Inr \<lparr>sets_won = 0, draws = 0, sets_lost = 1\<rparr>,
      map (\<lambda>r. r\<lparr>score := Num (- (3 / 10))\<rparr>) ex_leftover_rows @ ex_loss_rows) \<and>
   map score ex_leftover_rows = [NaN, NaN] \<and>
   map score (take (length ex_leftover_rows)
       (map (\<lambda>r. r\<lparr>score := Num (- (3 / 10))\<rparr>) ex_leftover_rows @ ex_loss_rows)) =
     [Num (- (3 / 10)), Num (- (3 / 10))] \<and>
   take (length ex_leftover_rows)
       (map (\<lambda>r. r\<lparr>score := Num (- (3 / 10))\<rparr>) ex_leftover_rows @ ex_loss_rows) \<noteq>
     ex_leftover_rows"
proof -
  have 1: "list_all resolved dataset_init" by (simp add: dataset_init_def)
  have 2: "play_a_set ex_strategies None ex_idle_win ex_first_draw_rows =
     (Inr (Some ''MLTrainee''), ex_first_draw_rows)"
    by (simp add: ex_defs run_defs)
  have 3: "loop_body ex_strategies None ex_idle_win
       (\<lparr>sets_won = 0, draws = 1, sets_lost = 0\<rparr>, ex_first_draw_rows) =
     (Inr \<lparr>sets_won = 1, draws = 1, sets_lost = 0\<rparr>,
      [ex_first_draw_rows ! 0, (ex_first_draw_rows ! 1)\<lparr>score := Num 1\<rparr>])"
    by (simp add: ex_defs run_defs)
  have 4: "score (ex_first_draw_rows ! 1) = Num 0"
    by (simp add: ex_first_draw_rows_def)
  have 5: "take (length ex_first_draw_rows)
       [ex_first_draw_rows ! 0, (ex_first_draw_rows ! 1)\<lparr>score := Num 1\<rparr>] \<noteq>
     ex_first_draw_rows"
    by (simp add: ex_first_draw_rows_def)
  have 6: "create_dataset ex_strategies ex_aborted_run 0 (5 / 2) 1 (Some ex_picky) ex_world =
     (Inl (Raised ''ValueError''), \<lparr>dataset = ex_leftover_rows, csv_file = None\<rparr>)"
    by (simp add: create_dataset_def ex_aborted_run_def ex_defs run_defs)
  have 7: "records_a_decision ex_loss"
    by (simp add: records_a_decision_def ex_loss_def)
  have 8: "play_a_set ex_strategies None ex_loss ex_leftover_rows =
     (Inr (Some ''Opponent''), ex_leftover_rows @ map (\<lambda>r. r\<lparr>score := NaN\<rparr>) ex_loss_rows)"
    by (simp add: ex_defs run_defs)
  have 9: "loop_body ex_strategies None ex_loss (ex_counters, ex_leftover_rows) =
     (Inr \<lparr>sets_won = 0, draws = 0, sets_lost = 1\<rparr>,
      map (\<lambda>r. r\<lparr>score := Num (- (3 / 10))\<rparr>) ex_leftover_rows @ ex_loss_rows)"
    by (simp add: ex_defs run_defs)
  have 10: "map score ex_leftover_rows = [NaN, NaN]"
    by (simp add: ex_leftover_rows_def)
  have 11: "map score (take (length ex_leftover_rows)
       (map (\<lambda>r. r\<lparr>score := Num (- (3 / 10))\<rparr>) ex_leftover_rows @ ex_loss_rows)) =
     [Num (- (3 / 10)), Num (- (3 / 10))]"
    by (simp add: ex_leftover_rows_def)
  have 12: "take (length ex_leftover_rows)
       (map (\<lambda>r. r\<lparr>score := Num (- (3 / 10))\<rparr>) ex_leftover_rows @ ex_loss_rows) \<noteq>
     ex_leftover_rows"
    by (simp add: ex_leftover_rows_def)
  from 1 ex_run_draw 2 3 4 5 6 7 8 9 10 11 12 show ?thesis by blast
qed

text \<open>
  Claim C3, amended. In a run that starts on a frame without missing values (the frame of
  a fresh process is one, and so is the frame that completed runs leave), take any set
  that is played to its end and in which the trainee decides at least once; \<open>ds\<close> is the
  frame when the set starts, \<open>ds1\<close> the frame when its play ends. Then the loop body
  completes, the rows of the earlier sets are the first rows of the frame before and
  after the shaping, unchanged, label included, and every row of the frame differs
  after the shaping from what it was before it in nothing but the label.
\<close>

theorem shaping_frame:
  assumes start: "list_all resolved ds0"
    and earlier: "run_sets cs sf ps (cnt0, ds0) = (Inr cnt, ds)"
    and played: "play_a_set cs sf p ds = (Inr w, ds1)"
    and some: "records_a_decision p"
  shows "\<exists>cnt' ds2. loop_body cs sf p (cnt, ds) = (Inr cnt', ds2) \<and>
           length ds2 = length ds1 \<and> take (length ds) ds1 = ds \<and> take (length ds) ds2 = ds \<and>
           (\<forall>i < length ds1. ds2 ! i = (ds1 ! i)\<lparr>score := score (ds2 ! i)\<rparr>)"
proof -
  from earlier start have res: "list_all resolved ds" by (rule run_sets_resolved)
  from play_a_set_Inr[OF played] obtain rows where rows: "ds1 = ds @ rows"
    "length rows = length (calls p)" "list_all pending rows"
    by blast
  with some have ne: "rows \<noteq> []" by (auto simp: records_a_decision_def)
  from shape_rewards_frame[OF res rows(3) ne, of w cnt] obtain cnt' ds2 where
    sh: "shape_rewards w (cnt, ds @ rows) = (Inr cnt', ds2)"
    and fr: "length ds2 = length (ds @ rows)" "take (length ds) ds2 = ds"
      "\<forall>i < length (ds @ rows). ds2 ! i = ((ds @ rows) ! i)\<lparr>score := score (ds2 ! i)\<rparr>"
    by blast
  from played sh rows(1) have "loop_body cs sf p (cnt, ds) = (Inr cnt', ds2)"
    by (simp add: loop_body_def)
  with fr rows(1) show ?thesis by auto
qed

theorem shaping_frame_witness:
  "list_all resolved dataset_init \<and>
   run_sets ex_strategies None [ex_draw] (ex_counters, dataset_init) =
     (Inr \<lparr>sets_won = 0, draws = 1, sets_lost = 0\<rparr>, ex_first_draw_rows) \<and>
   play_a_set ex_strategies None ex_win ex_first_draw_rows =
     (Inr (Some ''MLTrainee''), ex_first_draw_rows @ ex_win_recorded) \<and>
   records_a_decision ex_win \<and>
   loop_body ex_strategies None ex_win (\<lparr>sets_won = 0, draws = 1, sets_lost = 0\<rparr>, ex_first_draw_rows) =
     (Inr \<lparr>sets_won = 1, draws = 1, sets_lost = 0\<rparr>, ex_first_draw_rows @ ex_win_rows) \<and>
   take (length ex_first_draw_rows) (ex_first_draw_rows @ ex_win_rows) = ex_first_draw_rows \<and>
   (ex_first_draw_rows @ ex_win_rows) ! 4 =
     ((ex_first_draw_rows @ ex_win_recorded) ! 4)
       \<lparr>score := score ((ex_first_draw_rows @ ex_win_rows) ! 4)\<rparr>"
proof -
  have start: "list_all resolved dataset_init" by (simp add: dataset_init_def)
  have some: "records_a_decision ex_win" by (simp add: records_a_decision_def ex_win_def)
  from shaping_frame[OF start ex_run_draw ex_play_win_after_draw some]
  obtain cnt' ds2 where
    body: "loop_body ex_strategies None ex_win
             (\<lparr>sets_won = 0, draws = 1, sets_lost = 0\<rparr>, ex_first_draw_rows) = (Inr cnt', ds2)"
    and prior: "take (length ex_first_draw_rows) ds2 = ex_first_draw_rows"
    and rows: "\<forall>i < length (ex_first_draw_rows @ ex_win_recorded).
        ds2 ! i = ((ex_first_draw_rows @ ex_win_recorded) ! i)
                    \<lparr>score := score (ds2 ! i)\<rparr>"
    by blast
  from body ex_win_body_after_draw have ds2: "ds2 = ex_first_draw_rows @ ex_win_rows" by simp
  have "(4::nat) < length (ex_first_draw_rows @ ex_win_recorded)"
    by (simp add: ex_first_draw_rows_def ex_win_recorded_def)
  with rows have "ds2 ! 4 = ((ex_first_draw_rows @ ex_win_recorded) ! 4)
                    \<lparr>score := score (ds2 ! 4)\<rparr>"
    by blast
  with prior ds2 start ex_run_draw ex_play_win_after_draw some ex_win_body_after_draw
  show ?thesis by simp
qed

text \<open>
  Claim C8 as worded fails in its count: the frame is the process-wide one, so after a
  second run in the same process it has more rows than that run recorded decisions. Here
  the second run records two decisions and leaves four rows.
\<close>

theorem second_run_row_count:
  "snd (create_dataset ex_strategies ex_first_run 0 (5 / 2) 1 None ex_world) = ex_world_after_run \<and>
   run_sets ex_strategies None (map ex_second_run [0..<nat 1])
     (\<lparr>sets_won = 0, draws = 0, sets_lost = 0\<rparr>, dataset ex_world_after_run) =
     (Inr \<lparr>sets_won = 0, draws = 0, sets_lost = 1\<rparr>, ex_first_draw_rows @ ex_loss_rows) \<and>
   dataset (snd (create_dataset ex_strategies ex_second_run 0 (5 / 2) 1 None ex_world_after_run)) =
     ex_first_draw_rows @ ex_loss_rows \<and>
   length (ex_first_draw_rows @ ex_loss_rows) = 4 \<and>
   length (calls (ex_second_run 0)) = 2 \<and>
   length (ex_first_draw_rows @ ex_loss_rows) \<noteq> length (calls (ex_second_run 0))"
proof -
  have "length (ex_first_draw_rows @ ex_loss_rows) = 4"
    by (simp add: ex_first_draw_rows_def ex_loss_rows_def)
  moreover have "length (calls (ex_second_run 0)) = 2"
    by (simp add: ex_second_run_def ex_loss_def)
  ultimately show ?thesis
    using ex_first_run_world ex_second_run_sets ex_second_run_world by simp
qed

text \<open>
  Claim C8, amended. When the loop of a run of \<open>n\<close> sets completes, the frame that
  \<^verbatim>\<open>create_dataset\<close> leaves and writes to the file has no row with a missing label (the run
  plays at least one set, or no label was missing when it started), and its row count is
  the row count at the start of the run plus the number of decisions that the sets of the
  run recorded: that number alone when the frame was empty at the start, as it is in the
  first run of a process.
\<close>

theorem run_fully_labelled:
  assumes run: "run_sets cs sf (map engine [0..<nat n])
                  (\<lparr>sets_won = 0, draws = 0, sets_lost = 0\<rparr>, dataset w) = (Inr cnt, ds)"
  shows "snd (create_dataset cs engine t_start t_end n sf w) =
           w\<lparr>dataset := ds, csv_file := Some (columns, ds)\<rparr> \<and>
         (0 < n \<or> (\<forall>r \<in> set (dataset w). score r \<noteq> NaN) \<longrightarrow>
            (\<forall>r \<in> set ds. score r \<noteq> NaN)) \<and>
         length ds = length (dataset w) + (\<Sum>i<nat n. length (calls (engine i)))"
proof -
  from run have 1: "snd (create_dataset cs engine t_start t_end n sf w) =
      w\<lparr>dataset := ds, csv_file := Some (columns, ds)\<rparr>"
    by (rule create_dataset_world)
  have 2: "\<forall>r \<in> set ds. score r \<noteq> NaN"
    if "0 < n \<or> (\<forall>r \<in> set (dataset w). score r \<noteq> NaN)"
  proof (cases "0 < n")
    case True
    then have "map engine [0..<nat n] \<noteq> []" by simp
    with run have "list_all resolved ds" by (rule run_sets_resolved_nonempty)
    then show ?thesis by (simp add: list_all_iff resolved_def)
  next
    case False
    then have "nat n = 0" by simp
    with run have "ds = dataset w" by simp
    with that False show ?thesis by simp
  qed
  from run_sets_length[OF run]
  have 3: "length ds = length (dataset w) + (\<Sum>i<nat n. length (calls (engine i)))"
    by (simp add: comp_def sum_list_upt)
  from 1 2 3 show ?thesis by blast
qed

theorem run_fully_labelled_witness:
  "run_sets ex_strategies None (map ex_engine [0..<nat 2])
     (\<lparr>sets_won = 0, draws = 0, sets_lost = 0\<rparr>, dataset ex_world) =
     (Inr \<lparr>sets_won = 1, draws = 1, sets_lost = 0\<rparr>, ex_first_draw_rows @ ex_win_rows) \<and>
   (0::int) < 2 \<and>
   snd (create_dataset ex_strategies ex_engine 0 (5 / 2) 2 None ex_world) =
     ex_world\<lparr>dataset := ex_first_draw_rows @ ex_win_rows,
              csv_file := Some (columns, ex_first_draw_rows @ ex_win_rows)\<rparr> \<and>
   list_all (\<lambda>r. score r \<noteq> NaN) (ex_first_draw_rows @ ex_win_rows) \<and>
   length (ex_first_draw_rows @ ex_win_rows) =
     length (dataset ex_world) + (length (calls (ex_engine 0)) + length (calls (ex_engine 1)))"
proof -
  have run: "run_sets ex_strategies None (map ex_engine [0..<nat 2])
     (\<lparr>sets_won = 0, draws = 0, sets_lost = 0\<rparr>, dataset ex_world) =
     (Inr \<lparr>sets_won = 1, draws = 1, sets_lost = 0\<rparr>, ex_first_draw_rows @ ex_win_rows)"
    using ex_run_two by (simp add: ex_world_def)
  note r = run_fully_labelled[OF run, of 0 "5 / 2"]
  from r have "\<forall>r \<in> set (ex_first_draw_rows @ ex_win_rows). score r \<noteq> NaN"
    by simp
  then have "list_all (\<lambda>r. score r \<noteq> NaN) (ex_first_draw_rows @ ex_win_rows)"
    by (simp only: list_all_iff)
  moreover from r have "length (ex_first_draw_rows @ ex_win_rows) =
      length (dataset ex_world) + (length (calls (ex_engine 0)) + length (calls (ex_engine 1)))"
    by (simp add: lessThan_nat_numeral lessThan_Suc)
  ultimately show ?thesis using r run by simp
qed

text \<open>
  Claim C9 as worded fails: \<^verbatim>\<open>create_dataset\<close> does not empty the global frame. After a
  first run of one drawn set in a fresh process, the second run of the same process
  starts on a frame that is not empty, and the file it writes holds the rows of the first
  run before its own: more rows than the run recorded decisions.
\<close>

theorem second_run_keeps_first_rows:
  "dataset ex_world = [] \<and>
   snd (create_dataset ex_strategies ex_first_run 0 (5 / 2) 1 None ex_world) = ex_world_after_run \<and>
   dataset ex_world_after_run \<noteq> [] \<and>
   csv_file (snd (create_dataset ex_strategies ex_second_run 0 (5 / 2) 1 None ex_world_after_run)) =
     Some (columns, ex_first_draw_rows @ ex_loss_rows) \<and>
   ex_first_draw_rows \<noteq> [] \<and>
   take 2 (ex_first_draw_rows @ ex_loss_rows) = dataset ex_world_after_run"
proof -
  have 1: "ex_first_draw_rows \<noteq> []" by (simp add: ex_first_draw_rows_def)
  then have 2: "dataset ex_world_after_run \<noteq> []" by (simp add: ex_world_after_run_def)
  have 3: "take 2 (ex_first_draw_rows @ ex_loss_rows) = dataset ex_world_after_run"
    by (simp add: ex_world_after_run_def ex_first_draw_rows_def)
  have 4: "dataset ex_world = []" by (simp add: ex_world_def dataset_init_def)
  from 1 2 3 4 show ?thesis using ex_first_run_world ex_second_run_world by simp
qed

text \<open>
  Claim C9, amended. The frame is empty when the module is loaded, and
  \<^verbatim>\<open>create_dataset\<close> goes on from the frame it finds: the rows written at the end of a run
  are the whole global frame, which has the rows it held when the run started and one
  more row per decision recorded during the run; the rows it held come first and are
  unchanged when they had no missing value and every set of the run records a decision.
\<close>

theorem persisted_rows_accumulate:
  assumes run: "run_sets cs sf (map engine [0..<nat n])
                  (\<lparr>sets_won = 0, draws = 0, sets_lost = 0\<rparr>, dataset w) = (Inr cnt, ds)"
  shows "dataset_init = [] \<and>
         snd (create_dataset cs engine t_start t_end n sf w) =
           w\<lparr>dataset := ds, csv_file := Some (columns, ds)\<rparr> \<and>
         length ds = length (dataset w) + (\<Sum>i<nat n. length (calls (engine i))) \<and>
         (list_all resolved (dataset w) \<and> (\<forall>i<nat n. records_a_decision (engine i)) \<longrightarrow>
            take (length (dataset w)) ds = dataset w)"
proof -
  from run have 1: "snd (create_dataset cs engine t_start t_end n sf w) =
      w\<lparr>dataset := ds, csv_file := Some (columns, ds)\<rparr>"
    by (rule create_dataset_world)
  from run_sets_length[OF run]
  have 2: "length ds = length (dataset w) + (\<Sum>i<nat n. length (calls (engine i)))"
    by (simp add: comp_def sum_list_upt)
  have 3: "take (length (dataset w)) ds = dataset w"
    if "list_all resolved (dataset w)" "\<forall>i<nat n. records_a_decision (engine i)"
    using run_sets_prefix[OF run that(1)] that(2) by simp
  from 1 2 3 show ?thesis by (simp add: dataset_init_def)
qed

theorem persisted_rows_accumulate_witness:
  "run_sets ex_strategies None (map ex_second_run [0..<nat 1])
     (\<lparr>sets_won = 0, draws = 0, sets_lost = 0\<rparr>, dataset ex_world_after_run) =
     (Inr \<lparr>sets_won = 0, draws = 0, sets_lost = 1\<rparr>, ex_first_draw_rows @ ex_loss_rows) \<and>
   list_all resolved (dataset ex_world_after_run) \<and>
   records_a_decision (ex_second_run 0) \<and>
   snd (create_dataset ex_strategies ex_second_run 0 (5 / 2) 1 None ex_world_after_run) =
     ex_world_after_run\<lparr>dataset := ex_first_draw_rows @ ex_loss_rows,
                        csv_file := Some (columns, ex_first_draw_rows @ ex_loss_rows)\<rparr> \<and>
   length (ex_first_draw_rows @ ex_loss_rows) =
     length (dataset ex_world_after_run) + length (calls (ex_second_run 0)) \<and>
   take (length (dataset ex_world_after_run)) (ex_first_draw_rows @ ex_loss_rows) =
     dataset ex_world_after_run"
proof -
  have res: "list_all resolved (dataset ex_world_after_run)"
    by (simp add: ex_world_after_run_def ex_first_draw_rows_def resolved_def)
  have some: "records_a_decision (ex_second_run 0)"
    by (simp add: records_a_decision_def ex_second_run_def ex_loss_def)
  then have all: "\<forall>i<nat 1. records_a_decision (ex_second_run i)" by simp
  note r = persisted_rows_accumulate[OF ex_second_run_sets, of 0 "5 / 2"]
  from r have persisted: "snd (create_dataset ex_strategies ex_second_run 0 (5 / 2) 1 None
      ex_world_after_run) =
      ex_world_after_run\<lparr>dataset := ex_first_draw_rows @ ex_loss_rows,
                         csv_file := Some (columns, ex_first_draw_rows @ ex_loss_rows)\<rparr>"
    by (elim conjE)
  from r have "length (ex_first_draw_rows @ ex_loss_rows) =
      length (dataset ex_world_after_run) + (\<Sum>i<nat 1. length (calls (ex_second_run i)))"
    by (elim conjE)
  then have len: "length (ex_first_draw_rows @ ex_loss_rows) =
      length (dataset ex_world_after_run) + length (calls (ex_second_run 0))"
    by simp
  from r res all have keep: "take (length (dataset ex_world_after_run))
      (ex_first_draw_rows @ ex_loss_rows) = dataset ex_world_after_run"
    by blast
  from ex_second_run_sets res some persisted len keep show ?thesis by blast
qed

section \<open>The throughput division\<close>

text \<open>
  Claim C4 fails on the code. Line 82 divides by the elapsed time truncated to whole
  seconds, with nothing before it that looks at the divisor: whenever the loop completes
  and the two readings of the timer are less than a second apart, whatever the number of
  sets, \<^verbatim>\<open>create_dataset\<close> writes the file and then ends in \<^verbatim>\<open>ZeroDivisionError\<close>.
\<close>

theorem throughput_division_unguarded:
  assumes loop: "run_sets cs sf (map engine [0..<nat n])
                   (\<lparr>sets_won = 0, draws = 0, sets_lost = 0\<rparr>, dataset w) = (Inr cnt, ds)"
    and quick: "\<bar>t_end - t_start\<bar> < 1"
  shows "create_dataset cs engine t_start t_end n sf w =
           (Inl ZeroDivisionError, w\<lparr>dataset := ds, csv_file := Some (columns, ds)\<rparr>)"
proof -
  from quick have "py_int (t_end - t_start) = 0"
    by (auto simp: py_int_def floor_eq_iff ceiling_eq_iff)
  with loop show ?thesis by (simp add: create_dataset_def Let_def)
qed

text \<open>
  The failing input: zero sets in a fresh process, timer readings half a second apart.
  The file is written with the header line and no row, and the call raises.
\<close>

theorem zero_sets_division:
  "run_sets ex_strategies None (map ex_engine [0..<nat 0])
     (\<lparr>sets_won = 0, draws = 0, sets_lost = 0\<rparr>, dataset ex_world) =
     (Inr \<lparr>sets_won = 0, draws = 0, sets_lost = 0\<rparr>, []) \<and>
   \<bar>1 / 2 - 0\<bar> < (1::real) \<and>
   create_dataset ex_strategies ex_engine 0 (1 / 2) 0 None ex_world =
     (Inl ZeroDivisionError, \<lparr>dataset = [], csv_file = Some (columns, [])\<rparr>)"
proof -
  have loop: "run_sets ex_strategies None (map ex_engine [0..<nat 0])
      (\<lparr>sets_won = 0, draws = 0, sets_lost = 0\<rparr>, dataset ex_world) =
      (Inr \<lparr>sets_won = 0, draws = 0, sets_lost = 0\<rparr>, [])"
    by (simp add: ex_world_def dataset_init_def)
  have quick: "\<bar>1 / 2 - 0\<bar> < (1::real)" by simp
  from throughput_division_unguarded[OF loop quick] loop quick
  show ?thesis by (simp add: ex_world_def)
qed

section \<open>The features of the training step\<close>

lemma map_of_row_items [simp]:
  "map_of (row_items r) ''self_score'' = Some (self_score r)"
  "map_of (row_items r) ''opp_score'' = Some (opp_score r)"
  "map_of (row_items r) ''opp_stands'' = Some (opp_stands r)"
  "map_of (row_items r) ''result_card_val'' = Some (result_card_val r)"
  "map_of (row_items r) ''result_stand'' = Some (result_stand r)"
  "map_of (row_items r) ''score'' = Some (score r)"
  by (simp_all add: row_items_def)

lemma read_csv_columns:
  "read_csv (columns, rows) =
     [(''self_score'', map self_score rows), (''opp_score'', map opp_score rows),
      (''opp_stands'', map opp_stands rows), (''result_card_val'', map result_card_val rows),
      (''result_stand'', map result_stand rows), (''score'', map score rows)]"
  by (simp add: read_csv_def columns_def)

lemma series_sub_map: "series_sub (map f rows) (map g rows) = map (\<lambda>r. cell_sub (f r) (g r)) rows"
  by (induction rows) (simp_all add: series_sub_def)

lemma series_add_map: "series_add (map f rows) (map g rows) = map (\<lambda>r. cell_add (f r) (g r)) rows"
  by (induction rows) (simp_all add: series_add_def)

lemma engineer_features_read:
  "engineer_features (read_csv (columns, rows)) =
     Inr [(''self_score'', map self_score rows), (''opp_stands'', map opp_stands rows),
          (''result_stand'', map result_stand rows), (''score'', map score rows),
          (''score_difference'', map (\<lambda>r. cell_sub (self_score r) (opp_score r)) rows),
          (''score_if_card_played'',
             map (\<lambda>r. cell_add (self_score r) (result_card_val r)) rows)]"
  by (simp add: engineer_features_def read_csv_columns get_column_def assign_column_def
      drop_columns_def series_sub_map series_add_map)

text \<open>
  Claim C5 as worded fails: \<^verbatim>\<open>self_score\<close> is not replaced. Only \<^verbatim>\<open>opp_score\<close> is dropped after
  the difference is taken, so the features are the five of \<^verbatim>\<open>feature_names\<close>, with
  \<^verbatim>\<open>self_score\<close> among them, and not the four that the wording leaves.
\<close>

theorem self_score_stays_a_feature:
  "train_model_X_y (Some (columns, ex_rows)) = Inr (ex_X, [Num (3 / 10), Num 1]) \<and>
   map fst ex_X = feature_names \<and>
   ''self_score'' \<in> set (map fst ex_X) \<and>
   set (map fst ex_X) \<noteq> set spec_feature_names"
proof -
  have 1: "train_model_X_y (Some (columns, ex_rows)) = Inr (ex_X, [Num (3 / 10), Num 1])"
    by (simp add: train_model_X_y_def engineer_features_read get_column_def drop_columns_def
        cell_sub_def cell_add_def ex_rows_def ex_X_def)
  have 2: "map fst ex_X = feature_names" by (simp add: ex_X_def feature_names_def)
  have 3: "''self_score'' \<in> set (map fst ex_X)" by (simp add: ex_X_def)
  have "''self_score'' \<notin> set spec_feature_names" by (simp add: spec_feature_names_def)
  with 3 have 4: "set (map fst ex_X) \<noteq> set spec_feature_names" by blast
  from 1 2 3 4 show ?thesis by blast
qed

text \<open>
  Claim C5, amended. For the file that \<^verbatim>\<open>to_csv\<close> wrote from any rows, the features are, in
  this order, \<^verbatim>\<open>self_score\<close>, \<^verbatim>\<open>opp_stands\<close>, \<^verbatim>\<open>result_stand\<close>, \<^verbatim>\<open>score_difference\<close> (in place of
  \<^verbatim>\<open>opp_score\<close>) and \<^verbatim>\<open>score_if_card_played\<close> (in place of \<^verbatim>\<open>result_card_val\<close>), and the target
  is \<^verbatim>\<open>score\<close>. Row by row, in the order of the file, the two derived values are the
  difference of the row's own two scores and the sum of its own score and card value.
\<close>

theorem engineered_features:
  "train_model_X_y (Some (columns, rows)) =
     Inr ([(''self_score'', map self_score rows), (''opp_stands'', map opp_stands rows),
           (''result_stand'', map result_stand rows),
           (''score_difference'', map (\<lambda>r. cell_sub (self_score r) (opp_score r)) rows),
           (''score_if_card_played'',
              map (\<lambda>r. cell_add (self_score r) (result_card_val r)) rows)],
          map score rows) \<and>
   cell_sub (Num a) (Num b) = Num (a - b) \<and> cell_add (Num a) (Num c) = Num (a + c)"
  by (simp add: train_model_X_y_def engineer_features_read get_column_def drop_columns_def
      cell_sub_def cell_add_def)

end
